theory Spec2Isabelle
  imports Main "HOL-Library.Word"
begin

section \<open>Migration checkpoints of jobsdb\<close>

text \<open>
  A shallow embedding of \<^verbatim>\<open>jobsdb/jobsdb_migration_events.go\<close>.
  Go's \<^verbatim>\<open>int64\<close> and \<^verbatim>\<open>uint64\<close> are 64-bit words (arithmetic wraps; \<open>sint\<close> reads an
  \<^verbatim>\<open>int64\<close>), Go strings are byte strings, a panic is the left summand of a result.
\<close>

type_synonym int64 = "64 word"
type_synonym uint64 = "64 word"

subsection \<open>The event record and its enumerations\<close>

record MigrationEvent =
  ID :: int64
  MigrationType :: string
  FromNode :: string
  ToNode :: string
  FileLocation :: string
  Status :: string
  StartSeq :: int64
  Payload :: string
  TimeStamp :: nat

definition ExportOp :: string where "ExportOp = ''export''"
definition ImportOp :: string where "ImportOp = ''import''"
definition AcceptNewEventsOp :: string where "AcceptNewEventsOp = ''acceptNewEvents''"

definition SetupForExport :: string where "SetupForExport = ''setup_for_export''"
definition Exported :: string where "Exported = ''exported''"
definition Notified :: string where "Notified = ''notified''"
definition Completed :: string where "Completed = ''completed''"
definition SetupToAcceptNewEvents :: string where
  "SetupToAcceptNewEvents = ''setup_to_accept_new_events''"
definition SetupForImport :: string where "SetupForImport = ''setup_for_import''"
definition PreparedForImport :: string where "PreparedForImport = ''prepared_for_import''"
definition Imported :: string where "Imported = ''imported''"

subsection \<open>Fatal outcomes\<close>

text \<open>
  Go \<^verbatim>\<open>error\<close> values: \<open>ErrNoRows\<close> is \<^verbatim>\<open>sql.ErrNoRows\<close> (a \<^verbatim>\<open>QueryRow(...).Scan\<close> without a
  row), \<open>ErrPrepare\<close> and \<open>ErrQuery\<close> are errors the driver reports for \<^verbatim>\<open>Prepare\<close> and for
  running a statement, \<open>ErrPkey\<close> and \<open>ErrSequence\<close> are the store refusing an insert (primary
  key taken, the \<^verbatim>\<open>BIGSERIAL\<close> sequence used up), \<open>ErrUnmarshal\<close> is a failed
  \<^verbatim>\<open>json.Unmarshal\<close>.
\<close>

datatype error = ErrPrepare | ErrQuery | ErrNoRows | ErrPkey | ErrSequence | ErrUnmarshal

text \<open>
  A process abort: a failed \<^verbatim>\<open>jd.assert\<close> with its message, a \<^verbatim>\<open>jd.assertError\<close> on a
  non-nil error, an explicit \<^verbatim>\<open>panic("...")\<close>, the runtime's index-out-of-range panic
  with the offending index, or the runtime's panic on a method call through a nil pointer.
\<close>

datatype fatal =
    AssertFailed string
  | AssertError error
  | Panic string
  | IndexOutOfRange int
  | NilDereference

subsection \<open>Sequence accounting\<close>

text \<open>\<^verbatim>\<open>fileLocationSplitter\<close>: \<^verbatim>\<open>r == '_' || r == '.'\<close>.\<close>

definition fileLocationSplitter :: "char \<Rightarrow> bool" where
  "fileLocationSplitter r \<longleftrightarrow> r = CHR ''_'' \<or> r = CHR ''.''"

text \<open>
  \<^verbatim>\<open>strings.FieldsFunc\<close>: the maximal runs of characters that do not satisfy \<open>f\<close>, in
  order; no empty field is produced. \<open>cur\<close> is the field being read. The library decodes
  runes; both separators are ASCII and no byte of a multi-byte UTF-8 sequence is ASCII, so
  splitting the bytes gives the same fields.
\<close>

fun FieldsFunc_from :: "(char \<Rightarrow> bool) \<Rightarrow> string \<Rightarrow> string \<Rightarrow> string list" where
  "FieldsFunc_from f cur [] = (if cur = [] then [] else [cur])"
| "FieldsFunc_from f cur (c # cs) =
     (if f c then (if cur = [] then FieldsFunc_from f [] cs else cur # FieldsFunc_from f [] cs)
      else FieldsFunc_from f (cur @ [c]) cs)"

definition FieldsFunc :: "string \<Rightarrow> (char \<Rightarrow> bool) \<Rightarrow> string list" where
  "FieldsFunc s f = FieldsFunc_from f [] s"

datatype NumError = ErrSyntax | ErrRange

definition isDigit :: "char \<Rightarrow> bool" where
  "isDigit c \<longleftrightarrow> 48 \<le> (of_char c :: nat) \<and> (of_char c :: nat) \<le> 57"

definition digitVal :: "char \<Rightarrow> uint64" where
  "digitVal c = of_nat (of_char c - 48)"

text \<open>
  The cutoff of \<^verbatim>\<open>strconv.ParseUint\<close> in base 10, \<^verbatim>\<open>maxUint64/10 + 1\<close>, and
  \<^verbatim>\<open>maxVal = 1<<64 - 1\<close>.
\<close>

definition cutoff10 :: uint64 where "cutoff10 = 1844674407370955162"
definition maxVal :: uint64 where "maxVal = 18446744073709551615"

text \<open>
  The digit loop of \<^verbatim>\<open>strconv.ParseUint(s, 10, 64)\<close>. A byte that is not a decimal digit
  ends the loop with a syntax error (a letter is a digit of value at least 10, which base 10
  refuses the same way); the overflow checks come before the next byte is looked at, so an
  overflow is reported by the first digit that overflows.
\<close>

fun ParseUint_loop :: "uint64 \<Rightarrow> string \<Rightarrow> uint64 \<times> NumError option" where
  "ParseUint_loop n [] = (n, None)"
| "ParseUint_loop n (c # cs) =
     (if \<not> isDigit c then (0, Some ErrSyntax)
      else if n \<ge> cutoff10 then (maxVal, Some ErrRange)
      else let n1 = n * 10 + digitVal c
           in if n1 < n * 10 \<or> n1 > maxVal then (maxVal, Some ErrRange)
              else ParseUint_loop n1 cs)"

definition ParseUint :: "string \<Rightarrow> uint64 \<times> NumError option" where
  "ParseUint s = (if s = [] then (0, Some ErrSyntax) else ParseUint_loop 0 s)"

text \<open>
  \<^verbatim>\<open>strconv.ParseInt(s, 10, 64)\<close>: an optional sign, then \<^verbatim>\<open>ParseUint\<close>; a syntax error
  gives 0, a value out of range gives the nearest \<^verbatim>\<open>int64\<close> with a range error.
\<close>

definition ParseInt :: "string \<Rightarrow> int64 \<times> NumError option" where
  "ParseInt s =
     (if s = [] then (0, Some ErrSyntax)
      else
        let neg = (hd s = CHR ''-'');
            s1 = (if hd s = CHR ''+'' \<or> hd s = CHR ''-'' then tl s else s);
            (un, err) = ParseUint s1;
            cutoff = (9223372036854775808 :: uint64)
        in if err = Some ErrSyntax then (0, Some ErrSyntax)
           else if \<not> neg \<and> un \<ge> cutoff then (cutoff - 1, Some ErrRange)
           else if neg \<and> un > cutoff then (- cutoff, Some ErrRange)
           else (if neg then - un else un, None))"

text \<open>
  \<^verbatim>\<open>getNumberOfJobsFromFileLocation\<close>. The index \<^verbatim>\<open>len(slicedS)-2\<close> is not guarded: with
  fewer than two fields the slice access panics. The error of \<^verbatim>\<open>ParseInt\<close> is dropped.
\<close>

definition getNumberOfJobsFromFileLocation :: "string \<Rightarrow> fatal + int64" where
  "getNumberOfJobsFromFileLocation fileLocation =
     (let slicedS = FieldsFunc fileLocation fileLocationSplitter
      in if length slicedS < 2 then Inl (IndexOutOfRange (int (length slicedS) - 2))
         else Inr (fst (ParseInt (slicedS ! (length slicedS - 2)))))"

definition getLastJobID :: "MigrationEvent \<Rightarrow> fatal + int64" where
  "getLastJobID migrationEvent =
     (if StartSeq migrationEvent = 0 then Inr 0
      else case getNumberOfJobsFromFileLocation (FileLocation migrationEvent) of
             Inl e \<Rightarrow> Inl e
           | Inr totalJobs \<Rightarrow> Inr (StartSeq migrationEvent + totalJobs - 1))"

subsection \<open>Assertions of the handle\<close>

text \<open>
  Modelled from the spec: \<^verbatim>\<open>jd.assert\<close> is a method of the handle declared outside this
  file. The spec calls an unsupported migration type passed to a checkpoint or query call a
  fatal precondition failure that terminates the process: \<open>assert\<close> aborts with its message
  when the condition is false.
\<close>

definition "assert" :: "bool \<Rightarrow> string \<Rightarrow> fatal + unit" where
  "assert cond errorString = (if cond then Inr () else Inl (AssertFailed errorString))"

text \<open>
  Modelled from the spec: \<^verbatim>\<open>jd.assertError\<close> is a method of the handle declared outside
  this file. The spec calls a store or driver error on a non-transactional write or on any
  read fatal: \<open>assertError\<close> aborts when the error is not nil.
\<close>

definition assertError :: "error option \<Rightarrow> fatal + unit" where
  "assertError err = (case err of None \<Rightarrow> Inr () | Some e \<Rightarrow> Inl (AssertError e))"

subsection \<open>The checkpoint table\<close>

text \<open>
  The table that \<^verbatim>\<open>SetupCheckpointTable\<close> creates: its rows, in the order they were
  inserted, and the next value of the \<^verbatim>\<open>BIGSERIAL\<close> sequence behind \<^verbatim>\<open>id\<close>. Every column
  this file writes is written with a non-null value, so a row is a \<open>MigrationEvent\<close>; the
  payload is kept as the bytes that were written.
\<close>

record HandleT =
  rows :: "MigrationEvent list"
  next_id :: int

text \<open>
  What the driver does to the one statement a call prepares and runs: nothing, an error
  from \<^verbatim>\<open>Prepare\<close>, or an error from running it (connection lost, a value the column type
  refuses, and so on). The caller of a model function chooses it, as the world does.
\<close>

datatype driver = DriverOK | PrepareFails | QueryFails

text \<open>A transaction handle \<^verbatim>\<open>*sql.Tx\<close>; \<open>None\<close> is \<^verbatim>\<open>nil\<close>.\<close>

datatype Tx = Tx nat

text \<open>
  \<^verbatim>\<open>CREATE TABLE IF NOT EXISTS\<close> with \<^verbatim>\<open>id BIGSERIAL PRIMARY KEY\<close> and
  \<^verbatim>\<open>file_location TEXT UNIQUE\<close>: an absent table becomes the empty one, whose sequence starts
  at 1; an existing table is left as it is. The statement is run with \<^verbatim>\<open>Exec\<close>, and its
  error goes to \<^verbatim>\<open>assertError\<close>.
\<close>

definition SetupCheckpointTable :: "HandleT option \<Rightarrow> driver \<Rightarrow> fatal + HandleT" where
  "SetupCheckpointTable tbl drv =
     (case assertError (if drv = DriverOK then None else Some ErrQuery) of
        Inl f \<Rightarrow> Inl f
      | Inr _ \<Rightarrow> Inr (case tbl of None \<Rightarrow> \<lparr>rows = [], next_id = 1\<rparr> | Some jd \<Rightarrow> jd))"

text \<open>
  The two constraints of the schema: \<^verbatim>\<open>file_location\<close> is unique and \<^verbatim>\<open>id\<close> is the primary
  key. The store keeps them in every state.
\<close>

definition schema_ok :: "HandleT \<Rightarrow> bool" where
  "schema_ok jd \<longleftrightarrow> distinct (map FileLocation (rows jd)) \<and> distinct (map ID (rows jd))"

text \<open>
  \<^verbatim>\<open>UPDATE t SET status = $1, start_sequence = $2 WHERE id = $3 RETURNING id\<close>, read with
  \<^verbatim>\<open>QueryRow(...).Scan(&meID)\<close>: without a row of that id nothing is returned and \<^verbatim>\<open>Scan\<close>
  reports \<^verbatim>\<open>sql.ErrNoRows\<close>.
\<close>

definition sql_update :: "HandleT \<Rightarrow> string \<Rightarrow> int64 \<Rightarrow> int64 \<Rightarrow> (error + int64) \<times> HandleT" where
  "sql_update jd status startSeq eid =
     (if list_ex (\<lambda>r. ID r = eid) (rows jd)
      then (Inr eid,
            jd\<lparr>rows := map (\<lambda>r. if ID r = eid then r\<lparr>Status := status, StartSeq := startSeq\<rparr> else r)
                           (rows jd)\<rparr>)
      else (Inl ErrNoRows, jd))"

text \<open>
  \<^verbatim>\<open>INSERT INTO t (migration_type, from_node, to_node, file_location, status,
  start_sequence, payload, time_stamp) VALUES ($1, ..., $8) ON CONFLICT (file_location) DO
  UPDATE SET status = EXCLUDED.status RETURNING id\<close>. The default of \<^verbatim>\<open>id\<close> takes the next
  value of the sequence before the conflict is looked for, so the sequence advances in
  either case and stays advanced when the statement fails. With a row of the same
  \<^verbatim>\<open>file_location\<close> only the status of that row is replaced, and its id is returned;
  otherwise the new row is appended, unless its id is already taken.
\<close>

definition sql_insert_on_conflict ::
  "HandleT \<Rightarrow> MigrationEvent \<Rightarrow> nat \<Rightarrow> (error + int64) \<times> HandleT" where
  "sql_insert_on_conflict jd ev now =
     (if next_id jd > 9223372036854775807 then (Inl ErrSequence, jd)
      else
        let newid = (word_of_int (next_id jd) :: int64);
            jd1 = jd\<lparr>next_id := next_id jd + 1\<rparr>
        in case find (\<lambda>r. FileLocation r = FileLocation ev) (rows jd) of
             Some old \<Rightarrow>
               (Inr (ID old),
                jd1\<lparr>rows := map (\<lambda>r. if FileLocation r = FileLocation ev
                                      then r\<lparr>Status := Status ev\<rparr> else r) (rows jd)\<rparr>)
           | None \<Rightarrow>
               if list_ex (\<lambda>r. ID r = newid) (rows jd) then (Inl ErrPkey, jd1)
               else (Inr newid,
                     jd1\<lparr>rows := rows jd @
                        [\<lparr>ID = newid, MigrationType = MigrationType ev, FromNode = FromNode ev,
                          ToNode = ToNode ev, FileLocation = FileLocation ev,
                          Status = Status ev, StartSeq = StartSeq ev, Payload = Payload ev,
                          TimeStamp = now\<rparr>]\<rparr>))"

text \<open>
  \<^verbatim>\<open>SELECT * from t WHERE migration_type = $1 AND status = $2 ORDER BY ID ASC\<close>; the ids
  are compared as signed 64-bit integers.
\<close>

definition sql_select_checkpoints :: "HandleT \<Rightarrow> string \<Rightarrow> string \<Rightarrow> MigrationEvent list" where
  "sql_select_checkpoints jd migrationType status =
     sort_key (\<lambda>r. sint (ID r))
       (filter (\<lambda>r. MigrationType r = migrationType \<and> Status r = status) (rows jd))"

text \<open>
  \<^verbatim>\<open>SELECT start_sequence from t WHERE file_location = $1 AND migration_type = $2 ORDER BY
  id DESC\<close>.
\<close>

definition sql_select_start_sequence :: "HandleT \<Rightarrow> string \<Rightarrow> string \<Rightarrow> int64 list" where
  "sql_select_start_sequence jd fileLocation migrationType =
     map StartSeq
       (rev (sort_key (\<lambda>r. sint (ID r))
          (filter (\<lambda>r. FileLocation r = fileLocation \<and> MigrationType r = migrationType)
             (rows jd))))"

subsection \<open>Writing checkpoints\<close>

text \<open>
  The message of the assertion on the migration type,
  \<^verbatim>\<open>fmt.Sprintf("MigrationType: %s is not a supported operation. Should be %s or %s",
  migrationType, ExportOp, ImportOp)\<close>.
\<close>

definition unsupported_operation :: "string \<Rightarrow> string" where
  "unsupported_operation migrationType =
     ''MigrationType: '' @ migrationType @ '' is not a supported operation. Should be '' @
     ExportOp @ '' or '' @ ImportOp"

text \<open>
  The statement of \<^verbatim>\<open>CheckpointInTxn\<close> and its \<^verbatim>\<open>QueryRow(...).Scan(&meID)\<close>: the update when
  \<^verbatim>\<open>migrationEvent.ID > 0\<close>, the insert otherwise, with \<^verbatim>\<open>time.Now()\<close> as the time stamp.
\<close>

definition checkpoint_statement ::
  "HandleT \<Rightarrow> driver \<Rightarrow> nat \<Rightarrow> MigrationEvent \<Rightarrow> (error + int64) \<times> HandleT" where
  "checkpoint_statement jd drv now migrationEvent =
     (if drv = QueryFails then (Inl ErrQuery, jd)
      else if 0 <s ID migrationEvent
        then sql_update jd (Status migrationEvent) (StartSeq migrationEvent) (ID migrationEvent)
      else sql_insert_on_conflict jd migrationEvent now)"

text \<open>
  \<^verbatim>\<open>CheckpointInTxn\<close>. The result is the returned id, or the abort, and the table afterwards.
  The error of \<^verbatim>\<open>Prepare\<close> is asserted whether or not a transaction is passed; the error of
  the statement is asserted only without a transaction, and with one the function goes on
  and returns \<^verbatim>\<open>meID\<close>, which is still 0 when \<^verbatim>\<open>Scan\<close> failed. The function has no error
  result.
\<close>

definition CheckpointInTxn ::
  "HandleT \<Rightarrow> driver \<Rightarrow> nat \<Rightarrow> Tx option \<Rightarrow> MigrationEvent \<Rightarrow> (fatal + int64) \<times> HandleT" where
  "CheckpointInTxn jd drv now txn migrationEvent =
     (case assert (MigrationType migrationEvent = ExportOp \<or>
                   MigrationType migrationEvent = ImportOp \<or>
                   MigrationType migrationEvent = AcceptNewEventsOp)
             (unsupported_operation (MigrationType migrationEvent)) of
        Inl f \<Rightarrow> (Inl f, jd)
      | Inr _ \<Rightarrow>
         (case assertError (if drv = PrepareFails then Some ErrPrepare else None) of
            Inl f \<Rightarrow> (Inl f, jd)
          | Inr _ \<Rightarrow>
             (case checkpoint_statement jd drv now migrationEvent of
                (Inl err, jd1) \<Rightarrow>
                  (if txn = None
                   then (case assertError (Some err) of
                           Inl f \<Rightarrow> (Inl f, jd1) | Inr _ \<Rightarrow> (Inr 0, jd1))
                   else (Inr 0, jd1))
              | (Inr meID, jd1) \<Rightarrow> (Inr meID, jd1))))"

definition Checkpoint ::
  "HandleT \<Rightarrow> driver \<Rightarrow> nat \<Rightarrow> MigrationEvent \<Rightarrow> (fatal + int64) \<times> HandleT" where
  "Checkpoint jd drv now migrationEvent = CheckpointInTxn jd drv now None migrationEvent"

subsection \<open>Constructors\<close>

text \<open>\<^verbatim>\<open>NewMigrationEvent\<close>; \<open>now\<close> is \<^verbatim>\<open>time.Now()\<close>.\<close>

definition NewMigrationEvent ::
  "string \<Rightarrow> string \<Rightarrow> string \<Rightarrow> string \<Rightarrow> string \<Rightarrow> int64 \<Rightarrow> nat \<Rightarrow> MigrationEvent" where
  "NewMigrationEvent migrationType fromNode toNode fileLocation status startSeq now =
     \<lparr>ID = 0, MigrationType = migrationType, FromNode = fromNode, ToNode = toNode,
      FileLocation = fileLocation, Status = status, StartSeq = startSeq, Payload = ''{}'',
      TimeStamp = now\<rparr>"

definition NewSetupCheckpointEvent :: "string \<Rightarrow> string \<Rightarrow> nat \<Rightarrow> fatal + MigrationEvent" where
  "NewSetupCheckpointEvent migrationType node now =
     (if migrationType = ExportOp
        then Inr (NewMigrationEvent migrationType node ''All'' SetupForExport SetupForExport 0 now)
      else if migrationType = AcceptNewEventsOp
        then Inr (NewMigrationEvent migrationType ''All'' node SetupToAcceptNewEvents
                    SetupToAcceptNewEvents 0 now)
      else if migrationType = ImportOp
        then Inr (NewMigrationEvent migrationType ''All'' node SetupForImport SetupForImport 0 now)
      else Inl (Panic ''Illegal usage''))"

subsection \<open>Reading checkpoints\<close>

text \<open>
  \<^verbatim>\<open>GetCheckpoints\<close>: the error of \<^verbatim>\<open>Prepare\<close> is asserted, the error of \<^verbatim>\<open>Query\<close> panics,
  and every row of the result is scanned into an event.
\<close>

definition GetCheckpoints ::
  "HandleT \<Rightarrow> driver \<Rightarrow> string \<Rightarrow> string \<Rightarrow> fatal + MigrationEvent list" where
  "GetCheckpoints jd drv migrationType status =
     (case assertError (if drv = PrepareFails then Some ErrPrepare else None) of
        Inl f \<Rightarrow> Inl f
      | Inr _ \<Rightarrow>
          if drv = QueryFails then Inl (Panic ''Unable to query'')
          else Inr (sql_select_checkpoints jd migrationType status))"

text \<open>
  The \<^verbatim>\<open>switch\<close> of \<^verbatim>\<open>GetSetupCheckpoint\<close> that picks the setup status; \<^verbatim>\<open>setupStatus\<close> keeps
  its zero value, the empty string, for any other type.
\<close>

definition setupStatus :: "string \<Rightarrow> string" where
  "setupStatus migrationType =
     (if migrationType = ExportOp then SetupForExport
      else if migrationType = AcceptNewEventsOp then SetupToAcceptNewEvents
      else if migrationType = ImportOp then SetupForImport
      else [])"

definition GetSetupCheckpoint ::
  "HandleT \<Rightarrow> driver \<Rightarrow> string \<Rightarrow> fatal + MigrationEvent option" where
  "GetSetupCheckpoint jd drv migrationType =
     (case GetCheckpoints jd drv migrationType (setupStatus migrationType) of
        Inl f \<Rightarrow> Inl f
      | Inr setupEvents \<Rightarrow>
          (case setupEvents of
             [] \<Rightarrow> Inr None
           | [e] \<Rightarrow> Inr (Some e)
           | _ \<Rightarrow> Inl (Panic ''More than 1 setup event found. This should not happen'')))"

text \<open>
  \<^verbatim>\<open>getSeqNoForFileFromDB\<close>. Its assertion admits \<^verbatim>\<open>ExportOp\<close> and \<^verbatim>\<open>ImportOp\<close> only.
  \<^verbatim>\<open>defer stmt.Close()\<close> and \<^verbatim>\<open>defer rows.Close()\<close> are registered before the errors of
  \<^verbatim>\<open>Prepare\<close> and \<^verbatim>\<open>Query\<close> are looked at: when one of them fails, the statement or the
  cursor is nil, the assertion or the \<^verbatim>\<open>panic("Unable to query")\<close> starts the abort, and the
  deferred \<^verbatim>\<open>Close\<close> on the nil pointer panics in its turn, so the process ends on the nil
  dereference. Without a row \<^verbatim>\<open>rows.Next()\<close> closes the cursor, \<^verbatim>\<open>Scan\<close> reports
  "sql: Rows are closed", which is let through, and the sequence number keeps its initial 0.
\<close>

definition getSeqNoForFileFromDB :: "HandleT \<Rightarrow> driver \<Rightarrow> string \<Rightarrow> string \<Rightarrow> fatal + int64" where
  "getSeqNoForFileFromDB jd drv fileLocation migrationType =
     (case assert (migrationType = ExportOp \<or> migrationType = ImportOp)
             (unsupported_operation migrationType) of
        Inl f \<Rightarrow> Inl f
      | Inr _ \<Rightarrow>
         (case assertError (if drv = PrepareFails then Some ErrPrepare else None) of
            Inl f \<Rightarrow> Inl NilDereference
          | Inr _ \<Rightarrow>
              if drv = QueryFails then Inl NilDereference
              else (case sql_select_start_sequence jd fileLocation migrationType of
                      [] \<Rightarrow> Inr 0
                    | sequenceNumber # _ \<Rightarrow> Inr sequenceNumber)))"

subsection \<open>Setup resolution\<close>

text \<open>
  What \<^verbatim>\<open>findOrCreateDsFromSetupCheckpoint\<close> takes from outside this file, for a dataset
  descriptor type \<open>'ds\<close> (\<^verbatim>\<open>dataSetT\<close>): the dataset list \<^verbatim>\<open>jd.getDSList(true)\<close>, the node id
  \<^verbatim>\<open>misc.GetNodeID()\<close>, the three dataset selectors, \<^verbatim>\<open>json.Marshal\<close> and \<^verbatim>\<open>json.Unmarshal\<close>
  on descriptors (\<open>None\<close> is an error), and the zero descriptor of \<^verbatim>\<open>var payload dataSetT\<close>.
\<close>

record 'ds collaborators =
  getDSList :: "'ds list"
  GetNodeID :: string
  getLastDsForExport :: "'ds list \<Rightarrow> 'ds"
  getDsForNewEvents :: "'ds list \<Rightarrow> 'ds"
  getDsForImport :: "'ds list \<Rightarrow> 'ds"
  Marshal :: "'ds \<Rightarrow> string option"
  Unmarshal :: "string \<Rightarrow> 'ds option"
  zeroDataSet :: 'ds

text \<open>
  \<^verbatim>\<open>findOrCreateDsFromSetupCheckpoint\<close>, without its lock. \<open>drvGet\<close> and \<open>drvPut\<close> are what
  the driver does to the read and to the write, \<open>nowNew\<close> and \<open>nowPut\<close> the two readings of
  the clock. When no setup checkpoint is found the descriptor comes from the selector, is
  written with \<^verbatim>\<open>Checkpoint\<close>, whose returned id is dropped, and is read back from the
  event in memory (\<^verbatim>\<open>setupEvent = &me\<close>), not from the table.
\<close>

definition findOrCreateDsFromSetupCheckpoint ::
  "'ds collaborators \<Rightarrow> HandleT \<Rightarrow> driver \<Rightarrow> driver \<Rightarrow> nat \<Rightarrow> nat \<Rightarrow> string \<Rightarrow>
     (fatal + 'ds) \<times> HandleT" where
  "findOrCreateDsFromSetupCheckpoint env jd drvGet drvPut nowNew nowPut migrationType =
     (let dsList = getDSList env;
          decode = (\<lambda>setupEvent jd1.
             case Unmarshal env (Payload setupEvent) of
               None \<Rightarrow> (case assertError (Some ErrUnmarshal) of
                          Inl f \<Rightarrow> (Inl f, jd1) | Inr _ \<Rightarrow> (Inr (zeroDataSet env), jd1))
             | Some payload \<Rightarrow> (Inr payload, jd1))
      in case GetSetupCheckpoint jd drvGet migrationType of
           Inl f \<Rightarrow> (Inl f, jd)
         | Inr (Some setupEvent) \<Rightarrow> decode setupEvent jd
         | Inr None \<Rightarrow>
            (case NewSetupCheckpointEvent migrationType (GetNodeID env) nowNew of
               Inl f \<Rightarrow> (Inl f, jd)
             | Inr me0 \<Rightarrow>
                let payload =
                      (if migrationType = ExportOp then getLastDsForExport env dsList
                       else if migrationType = AcceptNewEventsOp then getDsForNewEvents env dsList
                       else if migrationType = ImportOp then getDsForImport env dsList
                       else zeroDataSet env)
                in case Marshal env payload of
                     None \<Rightarrow> (Inl (Panic ''Unable to Marshal''), jd)
                   | Some bytes \<Rightarrow>
                      let me = me0\<lparr>Payload := bytes\<rparr>
                      in case Checkpoint jd drvPut nowPut me of
                           (Inl f, jd1) \<Rightarrow> (Inl f, jd1)
                         | (Inr _, jd1) \<Rightarrow> decode me jd1))"

subsection \<open>Setup rows, for stating the properties\<close>

text \<open>
  These definitions do not come from the source; the theorems are stated with them.
  \<open>setup_rows jd t\<close> are the rows that \<open>GetSetupCheckpoint\<close> asks for: the events of type
  \<open>t\<close> with the setup status of \<open>t\<close>.
\<close>

definition setup_rows :: "HandleT \<Rightarrow> string \<Rightarrow> MigrationEvent list" where
  "setup_rows jd migrationType =
     filter (\<lambda>r. MigrationType r = migrationType \<and> Status r = setupStatus migrationType)
       (rows jd)"


text \<open>
  \<open>setup_keyed jd\<close>: file locations are unique, and every setup row of one of the three
  types is stored under its setup status as file location.
\<close>

definition setup_keyed :: "HandleT \<Rightarrow> bool" where
  "setup_keyed jd \<longleftrightarrow>
     distinct (map FileLocation (rows jd)) \<and>
     list_all (\<lambda>r. \<not> ((MigrationType r = ExportOp \<or> MigrationType r = ImportOp \<or>
                        MigrationType r = AcceptNewEventsOp) \<and>
                       Status r = setupStatus (MigrationType r)) \<or>
                   FileLocation r = Status r)
       (rows jd)"

text \<open>
  One call of \<open>Checkpoint\<close> on the setup event constructed for a migration type and a
  node, with a payload put in as \<open>findOrCreateDsFromSetupCheckpoint\<close> does, and the table it
  leaves (also when the call aborts); and a sequence of such calls.
\<close>

fun checkpoint_setup_event ::
  "HandleT \<Rightarrow> string \<times> string \<times> nat \<times> string \<times> driver \<times> nat \<Rightarrow> HandleT" where
  "checkpoint_setup_event jd (migrationType, node, nowNew, payload, drv, nowPut) =
     (case NewSetupCheckpointEvent migrationType node nowNew of
        Inl f \<Rightarrow> jd
      | Inr me \<Rightarrow> snd (Checkpoint jd drv nowPut (me\<lparr>Payload := payload\<rparr>)))"

definition checkpoint_setup_events ::
  "HandleT \<Rightarrow> (string \<times> string \<times> nat \<times> string \<times> driver \<times> nat) list \<Rightarrow> HandleT" where
  "checkpoint_setup_events jd calls = foldl checkpoint_setup_event jd calls"

text \<open>
  An instance of the collaborators, for evaluating examples: a descriptor is the name of a
  dataset and is encoded as itself, the export selector takes the last dataset of the list.
\<close>

definition example_collaborators :: "string collaborators" where
  "example_collaborators =
     \<lparr>getDSList = [''jobs_1'', ''jobs_2''], GetNodeID = ''node1'',
      getLastDsForExport = last, getDsForNewEvents = (\<lambda>dsList. ''jobs_3''),
      getDsForImport = (\<lambda>dsList. ''jobs_0''), Marshal = Some, Unmarshal = Some,
      zeroDataSet = []\<rparr>"

subsection \<open>Decimal numerals, for comparison with \<^verbatim>\<open>ParseInt\<close>\<close>

text \<open>
  What a token denotes when it is read as a decimal integer: an optional sign, then one or
  more decimal digits, valued in the usual way. These definitions do not come from the
  source; the theorems compare \<open>ParseInt\<close> with them.
\<close>

fun decimal_from :: "nat \<Rightarrow> string \<Rightarrow> nat" where
  "decimal_from a [] = a"
| "decimal_from a (c # cs) = decimal_from (a * 10 + (of_char c - 48)) cs"

definition decimal_value :: "string \<Rightarrow> nat" where
  "decimal_value ds = decimal_from 0 ds"

definition unsigned_part :: "string \<Rightarrow> string" where
  "unsigned_part tok =
     (if tok \<noteq> [] \<and> (hd tok = CHR ''+'' \<or> hd tok = CHR ''-'') then tl tok else tok)"

definition negative_sign :: "string \<Rightarrow> bool" where
  "negative_sign tok \<longleftrightarrow> tok \<noteq> [] \<and> hd tok = CHR ''-''"

definition is_decimal_integer :: "string \<Rightarrow> bool" where
  "is_decimal_integer tok \<longleftrightarrow>
     unsigned_part tok \<noteq> [] \<and> list_all isDigit (unsigned_part tok)"

definition integer_value :: "string \<Rightarrow> int" where
  "integer_value tok =
     (if negative_sign tok then - int (decimal_value (unsigned_part tok))
      else int (decimal_value (unsigned_part tok)))"

section \<open>Properties\<close>

subsection \<open>\<^verbatim>\<open>ParseInt\<close> against decimal numerals\<close>

lemma decimal_from_ge: "a \<le> decimal_from a cs"
proof (induction cs arbitrary: a)
  case Nil show ?case by simp
next
  case (Cons c cs)
  have "a \<le> a * 10 + (of_char c - 48)" by simp
  also have "\<dots> \<le> decimal_from (a * 10 + (of_char c - 48)) cs" by (rule Cons.IH)
  finally show ?case by simp
qed

lemma digitVal_unat: "isDigit c \<Longrightarrow> unat (digitVal c) = of_char c - 48"
proof -
  assume "isDigit c"
  then have "of_char c - 48 \<le> (9::nat)"
    unfolding isDigit_def by arith
  then have "of_char c - 48 < (2::nat) ^ LENGTH(64)"
    by simp
  then show ?thesis
    unfolding digitVal_def by (simp only: unat_of_nat mod_less)
qed

lemma digitVal_le: "isDigit c \<Longrightarrow> of_char c - 48 \<le> (9::nat)"
  unfolding isDigit_def by arith

lemma unat_times10:
  assumes "\<not> cutoff10 \<le> n"
  shows "unat (n * 10) = unat n * 10"
proof -
  from assms have "unat n < 1844674407370955162"
    by (simp add: cutoff10_def word_le_nat_alt)
  then have "unat n * unat (10 :: 64 word) < 2 ^ LENGTH(64)" by simp
  then have "unat (n * 10) = unat n * unat (10 :: 64 word)"
    by (simp only: unat_mult_lem [THEN iffD1])
  then show ?thesis by simp
qed

lemma ParseUint_loop_eq:
  "ParseUint_loop n cs =
     (let ds = takeWhile isDigit cs
      in if 2 ^ 64 \<le> decimal_from (unat n) ds then (maxVal, Some ErrRange)
         else if ds = cs then (of_nat (decimal_from (unat n) ds), None)
         else (0, Some ErrSyntax))"
proof (induction cs arbitrary: n)
  case Nil
  have "unat n < 2 ^ 64" using unsigned_less [of n, where ?'a=nat] by simp
  then show ?case by simp
next
  case (Cons c cs)
  show ?case
  proof (cases "isDigit c")
    case False
    have "unat n < 2 ^ 64" using unsigned_less [of n, where ?'a=nat] by simp
    with False show ?thesis by simp
  next
    case dig: True
    let ?d = "of_char c - (48::nat)"
    have d9: "?d \<le> 9" using dig by (rule digitVal_le)
    have dv: "unat (digitVal c) = ?d" using dig by (rule digitVal_unat)
    show ?thesis
    proof (cases "cutoff10 \<le> n")
      case True
      then have "1844674407370955162 \<le> unat n"
        by (simp add: cutoff10_def word_le_nat_alt)
      then have "2 ^ 64 \<le> unat n * 10 + ?d" by simp
      also have "\<dots> \<le> decimal_from (unat n * 10 + ?d) (takeWhile isDigit cs)"
        by (rule decimal_from_ge)
      finally show ?thesis using dig True by simp
    next
      case small: False
      have m: "unat (n * 10) = unat n * 10" using small by (rule unat_times10)
      have ovf: "(n * 10 \<le> n * 10 + digitVal c) = (unat (n * 10) + unat (digitVal c) < 2 ^ LENGTH(64))"
        by (rule no_olen_add_nat)
      show ?thesis
      proof (cases "n * 10 + digitVal c < n * 10")
        case True
        then have "\<not> n * 10 \<le> n * 10 + digitVal c" by simp
        then have "\<not> unat (n * 10) + unat (digitVal c) < 2 ^ LENGTH(64)"
          using ovf by blast
        then have "2 ^ 64 \<le> unat n * 10 + ?d" using m dv by simp
        also have "\<dots> \<le> decimal_from (unat n * 10 + ?d) (takeWhile isDigit cs)"
          by (rule decimal_from_ge)
        finally show ?thesis using dig small True by (simp add: Let_def)
      next
        case False
        then have "n * 10 \<le> n * 10 + digitVal c" by simp
        then have lt: "unat (n * 10) + unat (digitVal c) < 2 ^ LENGTH(64)"
          using ovf by blast
        then have u: "unat (n * 10 + digitVal c) = unat n * 10 + ?d"
          using m dv by (simp add: unat_add_lem [THEN iffD1])
        have nmax: "\<not> n * 10 + digitVal c > maxVal"
          unfolding maxVal_def word_less_nat_alt using unsigned_less [of "n * 10 + digitVal c", where ?'a=nat] by simp
        show ?thesis
          using dig small False nmax Cons.IH [of "n * 10 + digitVal c"] u
          by (simp add: Let_def)
      qed
    qed
  qed
qed

lemma takeWhile_all: "list_all P xs \<Longrightarrow> takeWhile P xs = xs"
  by (induction xs) auto

lemma takeWhile_not_all: "\<not> list_all P xs \<Longrightarrow> takeWhile P xs \<noteq> xs"
  by (induction xs) auto

lemma ParseUint_digits:
  assumes "s \<noteq> []" and "list_all isDigit s" and "decimal_value s < 2 ^ 64"
  shows "ParseUint s = (of_nat (decimal_value s), None)"
  using assms
  by (simp add: ParseUint_def ParseUint_loop_eq takeWhile_all decimal_value_def)

lemma ParseUint_not_digits:
  assumes "s = [] \<or> \<not> list_all isDigit s"
  shows "ParseUint s =
           (if 2 ^ 64 \<le> decimal_value (takeWhile isDigit s) then (maxVal, Some ErrRange)
            else (0, Some ErrSyntax))"
proof (cases "s = []")
  case True
  then show ?thesis by (simp add: ParseUint_def decimal_value_def)
next
  case False
  with assms have "\<not> list_all isDigit s" by simp
  then have "takeWhile isDigit s \<noteq> s" by (rule takeWhile_not_all)
  with False show ?thesis
    by (auto simp: ParseUint_def ParseUint_loop_eq decimal_value_def)
qed

lemma ParseInt_signed:
  assumes "tok \<noteq> []"
  shows "ParseInt tok =
     (case ParseUint (unsigned_part tok) of (un, err) \<Rightarrow>
        if err = Some ErrSyntax then (0, Some ErrSyntax)
        else if \<not> negative_sign tok \<and> un \<ge> 9223372036854775808
          then (9223372036854775807, Some ErrRange)
        else if negative_sign tok \<and> un > 9223372036854775808
          then (- 9223372036854775808, Some ErrRange)
        else (if negative_sign tok then - un else un, None))"
  using assms
  by (simp add: ParseInt_def unsigned_part_def negative_sign_def Let_def cong: if_cong)

lemma ParseInt_decimal:
  assumes dec: "is_decimal_integer tok"
    and lo: "- (2 ^ 63) \<le> integer_value tok" and hi: "integer_value tok < 2 ^ 63"
  shows "ParseInt tok = (word_of_int (integer_value tok), None)"
proof -
  let ?s1 = "unsigned_part tok"
  let ?v = "decimal_value ?s1"
  from dec have ne: "?s1 \<noteq> []" and dig: "list_all isDigit ?s1"
    by (simp_all add: is_decimal_integer_def)
  from ne have tok: "tok \<noteq> []" by (auto simp: unsigned_part_def)
  have v64: "?v < 2 ^ 64" using lo hi by (auto simp: integer_value_def split: if_splits)
  have pu: "ParseUint ?s1 = (of_nat ?v, None)"
    using ne dig v64 by (rule ParseUint_digits)
  have un: "unat (of_nat ?v :: 64 word) = ?v"
    using v64 by (simp add: unat_of_nat)
  show ?thesis
  proof (cases "negative_sign tok")
    case True
    then have "?v \<le> 2 ^ 63" using lo by (simp add: integer_value_def)
    then have "\<not> (9223372036854775808 :: 64 word) < of_nat ?v"
      using un by (simp add: word_less_nat_alt)
    then show ?thesis
      unfolding ParseInt_signed [OF tok] pu using True by (simp add: integer_value_def)
  next
    case False
    then have "?v < 2 ^ 63" using hi by (simp add: integer_value_def)
    then have "\<not> (9223372036854775808 :: 64 word) \<le> of_nat ?v"
      using un by (simp add: word_le_nat_alt)
    then show ?thesis
      unfolding ParseInt_signed [OF tok] pu using False by (simp add: integer_value_def)
  qed
qed

lemma ParseInt_not_decimal:
  assumes "\<not> is_decimal_integer tok"
  shows "ParseInt tok =
           (if 2 ^ 64 \<le> decimal_value (takeWhile isDigit (unsigned_part tok))
            then (if negative_sign tok then - 9223372036854775808 else 9223372036854775807,
                  Some ErrRange)
            else (0, Some ErrSyntax))"
proof (cases "tok = []")
  case True
  then show ?thesis by (simp add: ParseInt_def unsigned_part_def decimal_value_def)
next
  case tok: False
  let ?s1 = "unsigned_part tok"
  from assms have "?s1 = [] \<or> \<not> list_all isDigit ?s1"
    by (auto simp: is_decimal_integer_def)
  then have pu: "ParseUint ?s1 =
       (if 2 ^ 64 \<le> decimal_value (takeWhile isDigit ?s1) then (maxVal, Some ErrRange)
        else (0, Some ErrSyntax))"
    by (rule ParseUint_not_digits)
  show ?thesis
    unfolding ParseInt_signed [OF tok] pu
    by (simp add: maxVal_def word_le_nat_alt word_less_nat_alt)
qed

subsection \<open>Fields of a file location\<close>

lemma FieldsFunc_from_concat:
  "concat (FieldsFunc_from f cur s) = cur @ filter (\<lambda>c. \<not> f c) s"
  by (induction s arbitrary: cur) auto

lemma FieldsFunc_from_fields:
  "\<forall>c\<in>set cur. \<not> f c \<Longrightarrow>
   \<forall>t\<in>set (FieldsFunc_from f cur s). t \<noteq> [] \<and> (\<forall>c\<in>set t. \<not> f c)"
proof (induction s arbitrary: cur)
  case Nil
  then show ?case by simp
next
  case (Cons c cs)
  have e: "\<forall>t\<in>set (FieldsFunc_from f [] cs). t \<noteq> [] \<and> (\<forall>c\<in>set t. \<not> f c)"
    by (rule Cons.IH) simp
  show ?case
  proof (cases "f c")
    case True
    then show ?thesis using e Cons.prems by simp
  next
    case False
    then have "\<forall>x\<in>set (cur @ [c]). \<not> f x" using Cons.prems by simp
    then have "\<forall>t\<in>set (FieldsFunc_from f (cur @ [c]) cs). t \<noteq> [] \<and> (\<forall>c\<in>set t. \<not> f c)"
      by (rule Cons.IH)
    then show ?thesis using False by simp
  qed
qed

lemmas jobs_eval = getNumberOfJobsFromFileLocation_def FieldsFunc_def fileLocationSplitter_def
  ParseInt_def ParseUint_def isDigit_def digitVal_def cutoff10_def maxVal_def Let_def
  word_le_nat_alt word_less_nat_alt

lemma jobs_example: "getNumberOfJobsFromFileLocation ''export_node1_to_node2_42_17.json'' = Inr 17"
  by (simp add: jobs_eval)

subsection \<open>Sequence accounting\<close>

text \<open>
  C7. When the file location splits on \<open>_\<close> and \<open>.\<close> into two fields or more,
  \<open>getNumberOfJobsFromFileLocation\<close> returns what \<^verbatim>\<open>ParseInt\<close> makes of the second-to-last
  field, and does not abort; when that field is a decimal integer within \<^verbatim>\<open>int64\<close>, the
  result is that integer. For \<open>export_node1_to_node2_42_17.json\<close> it returns 17.
\<close>

theorem jobCount_second_to_last_token:
  "(let toks = FieldsFunc fl fileLocationSplitter; tok = toks ! (length toks - 2)
    in (2 \<le> length toks \<longrightarrow>
          getNumberOfJobsFromFileLocation fl = Inr (fst (ParseInt tok))) \<and>
       (2 \<le> length toks \<and> is_decimal_integer tok \<and>
        - (2 ^ 63) \<le> integer_value tok \<and> integer_value tok < 2 ^ 63 \<longrightarrow>
          getNumberOfJobsFromFileLocation fl = Inr (word_of_int (integer_value tok)) \<and>
          map_sum id sint (getNumberOfJobsFromFileLocation fl) = Inr (integer_value tok))) \<and>
   getNumberOfJobsFromFileLocation ''export_node1_to_node2_42_17.json'' = Inr 17"
proof -
  let ?toks = "FieldsFunc fl fileLocationSplitter"
  let ?tok = "?toks ! (length ?toks - 2)"
  have a: "getNumberOfJobsFromFileLocation fl = Inr (fst (ParseInt ?tok))"
    if "2 \<le> length ?toks"
    using that by (simp add: getNumberOfJobsFromFileLocation_def Let_def)
  have b: "getNumberOfJobsFromFileLocation fl = Inr (word_of_int (integer_value ?tok)) \<and>
           map_sum id sint (getNumberOfJobsFromFileLocation fl) = Inr (integer_value ?tok)"
    if len: "2 \<le> length ?toks" and dec: "is_decimal_integer ?tok"
      and lo: "- (2 ^ 63) \<le> integer_value ?tok" and hi: "integer_value ?tok < 2 ^ 63"
  proof -
    have p: "ParseInt ?tok = (word_of_int (integer_value ?tok), None)"
      using dec lo hi by (rule ParseInt_decimal)
    have s: "sint (word_of_int (integer_value ?tok) :: 64 word) = integer_value ?tok"
      using lo hi by (simp add: sint_sbintrunc' signed_take_bit_int_eq_self)
    show ?thesis using a [OF len] p s by simp
  qed
  show ?thesis
    unfolding Let_def using a b jobs_example by blast
qed

theorem jobCount_second_to_last_token_witness:
  "2 \<le> length (FieldsFunc ''batch_-42.gz'' fileLocationSplitter) \<and>
   is_decimal_integer ''-42'' \<and> integer_value ''-42'' = - 42 \<and>
   getNumberOfJobsFromFileLocation ''batch_-42.gz'' = Inr (word_of_int (- 42)) \<and>
   map_sum id sint (getNumberOfJobsFromFileLocation ''batch_-42.gz'') = Inr (- 42)"
  using jobCount_second_to_last_token [of "''batch_-42.gz''"]
  by (simp add: jobs_eval is_decimal_integer_def
      integer_value_def unsigned_part_def negative_sign_def decimal_value_def)

text \<open>
  C6. \<open>getLastJobID\<close> returns 0 when \<open>StartSeq\<close> is 0, whatever the file location is.
  Otherwise it returns \<open>StartSeq + getNumberOfJobsFromFileLocation FileLocation - 1\<close>, in
  \<^verbatim>\<open>int64\<close> arithmetic, and aborts where the job count aborts; when the sum stays within
  \<^verbatim>\<open>int64\<close> it is the sum of the integers. For the file location
  \<open>export_node1_to_node2_42_17.json\<close> and \<open>StartSeq = 100\<close> it returns 116.
\<close>

theorem getLastJobID_value:
  "(StartSeq me = 0 \<longrightarrow> getLastJobID me = Inr 0) \<and>
   (StartSeq me \<noteq> 0 \<longrightarrow>
      (\<forall>n. getNumberOfJobsFromFileLocation (FileLocation me) = Inr n \<longrightarrow>
         getLastJobID me = Inr (StartSeq me + n - 1) \<and>
         (- (2 ^ 63) \<le> sint (StartSeq me) + sint n - 1 \<and>
          sint (StartSeq me) + sint n - 1 < 2 ^ 63 \<longrightarrow>
            map_sum id sint (getLastJobID me) = Inr (sint (StartSeq me) + sint n - 1))) \<and>
      (\<forall>e. getNumberOfJobsFromFileLocation (FileLocation me) = Inl e \<longrightarrow>
         getLastJobID me = Inl e)) \<and>
   (StartSeq me = 100 \<and> FileLocation me = ''export_node1_to_node2_42_17.json'' \<longrightarrow>
      getLastJobID me = Inr 116)"
proof -
  have z: "getLastJobID me = Inr 0" if "StartSeq me = 0"
    using that by (simp add: getLastJobID_def)
  have r: "getLastJobID me = Inr (StartSeq me + n - 1)"
    if "StartSeq me \<noteq> 0" and "getNumberOfJobsFromFileLocation (FileLocation me) = Inr n" for n
    using that by (simp add: getLastJobID_def)
  have i: "map_sum id sint (getLastJobID me) = Inr (sint (StartSeq me) + sint n - 1)"
    if nz: "StartSeq me \<noteq> 0"
      and n: "getNumberOfJobsFromFileLocation (FileLocation me) = Inr n"
      and lo: "- (2 ^ 63) \<le> sint (StartSeq me) + sint n - 1"
      and hi: "sint (StartSeq me) + sint n - 1 < 2 ^ 63" for n
  proof -
    have "StartSeq me + n - 1 = word_of_int (sint (StartSeq me) + sint n - 1)"
      by simp
    then have "sint (StartSeq me + n - 1) = sint (StartSeq me) + sint n - 1"
      using lo hi by (simp only: sint_sbintrunc') (simp add: signed_take_bit_int_eq_self)
    then show ?thesis using r [OF nz n] by simp
  qed
  have p: "getLastJobID me = Inl e"
    if "StartSeq me \<noteq> 0" and "getNumberOfJobsFromFileLocation (FileLocation me) = Inl e" for e
    using that by (simp add: getLastJobID_def)
  have x: "getLastJobID me = Inr 116"
    if "StartSeq me = 100" and "FileLocation me = ''export_node1_to_node2_42_17.json''"
    using that jobs_example by (simp add: getLastJobID_def)
  show ?thesis using z r i p x by blast
qed

theorem getLastJobID_value_witness:
  "getLastJobID \<lparr>ID = 3, MigrationType = ''import'', FromNode = ''node1'', ToNode = ''node2'',
      FileLocation = ''anything'', Status = ''imported'', StartSeq = 0, Payload = ''{}'',
      TimeStamp = 0\<rparr> = Inr 0 \<and>
   getNumberOfJobsFromFileLocation ''export_node1_to_node2_42_17.json'' = Inr 17 \<and>
   map_sum id sint (getLastJobID \<lparr>ID = 4, MigrationType = ''export'', FromNode = ''node1'',
      ToNode = ''node2'', FileLocation = ''export_node1_to_node2_42_17.json'',
      Status = ''exported'', StartSeq = 100, Payload = ''{}'', TimeStamp = 0\<rparr>) = Inr 116 \<and>
   getLastJobID \<lparr>ID = 5, MigrationType = ''export'', FromNode = ''node1'', ToNode = ''node2'',
      FileLocation = ''json'', Status = ''exported'', StartSeq = 100, Payload = ''{}'',
      TimeStamp = 0\<rparr> = Inl (IndexOutOfRange (- 1))"
  using
    getLastJobID_value [of "\<lparr>ID = 3, MigrationType = ''import'', FromNode = ''node1'',
      ToNode = ''node2'', FileLocation = ''anything'', Status = ''imported'', StartSeq = 0,
      Payload = ''{}'', TimeStamp = 0\<rparr>"]
    getLastJobID_value [of "\<lparr>ID = 4, MigrationType = ''export'', FromNode = ''node1'',
      ToNode = ''node2'', FileLocation = ''export_node1_to_node2_42_17.json'',
      Status = ''exported'', StartSeq = 100, Payload = ''{}'', TimeStamp = 0\<rparr>"]
    getLastJobID_value [of "\<lparr>ID = 5, MigrationType = ''export'', FromNode = ''node1'',
      ToNode = ''node2'', FileLocation = ''json'', Status = ''exported'', StartSeq = 100,
      Payload = ''{}'', TimeStamp = 0\<rparr>"]
  by (simp add: jobs_eval)

text \<open>
  C9, as stated, fails in its last part: a token that is not a decimal integer does not
  always give the count 0. In \<open>99999999999999999999a\<close> the first nineteen nines are read
  without overflow; at the twentieth the value read so far is not below the cutoff, and the
  loop of \<^verbatim>\<open>ParseUint\<close> returns \<^verbatim>\<open>maxVal\<close> with a range error there, before it looks at the
  letter. \<^verbatim>\<open>ParseInt\<close> passes a range error on with the largest \<^verbatim>\<open>int64\<close>, and the code,
  which drops the error, keeps that value.
\<close>

theorem nonnumeric_token_count_counterexample:
  "FieldsFunc ''x_99999999999999999999a.json'' fileLocationSplitter =
     [''x'', ''99999999999999999999a'', ''json''] \<and>
   \<not> is_decimal_integer ''99999999999999999999a'' \<and>
   ParseUint_loop 0 ''9999999999999999999'' = (9999999999999999999, None) \<and>
   ParseUint_loop 9999999999999999999 ''9a'' = (maxVal, Some ErrRange) \<and>
   ParseInt ''99999999999999999999a'' = (9223372036854775807, Some ErrRange) \<and>
   getNumberOfJobsFromFileLocation ''x_99999999999999999999a.json'' = Inr 9223372036854775807 \<and>
   getNumberOfJobsFromFileLocation ''x_99999999999999999999a.json'' \<noteq> Inr 0"
  by (simp add: jobs_eval is_decimal_integer_def unsigned_part_def)

text \<open>
  C9, amended. With fewer than two fields \<open>getNumberOfJobsFromFileLocation\<close> aborts on the
  index \<open>length - 2\<close>, and so does \<open>getLastJobID\<close> on an event with that file location and
  a \<open>StartSeq\<close> other than 0; the empty string and \<open>json\<close> are such file locations. With two
  fields or more and a second-to-last token that is not a decimal integer, the count is 0,
  unless the leading digits of the token (after its sign) already exceed \<^verbatim>\<open>uint64\<close>: then
  it is the largest \<^verbatim>\<open>int64\<close>, or the smallest after a minus sign. In neither case is an
  error reported.
\<close>

theorem jobCount_short_or_nonnumeric:
  "(let toks = FieldsFunc fl fileLocationSplitter; tok = toks ! (length toks - 2)
    in (length toks < 2 \<longrightarrow>
          getNumberOfJobsFromFileLocation fl = Inl (IndexOutOfRange (int (length toks) - 2)) \<and>
          (StartSeq me \<noteq> 0 \<and> FileLocation me = fl \<longrightarrow>
             getLastJobID me = Inl (IndexOutOfRange (int (length toks) - 2)))) \<and>
       (2 \<le> length toks \<and> \<not> is_decimal_integer tok \<longrightarrow>
          getNumberOfJobsFromFileLocation fl =
            Inr (if 2 ^ 64 \<le> decimal_value (takeWhile isDigit (unsigned_part tok))
                 then (if negative_sign tok then - 9223372036854775808
                       else 9223372036854775807)
                 else 0))) \<and>
   getNumberOfJobsFromFileLocation [] = Inl (IndexOutOfRange (- 2)) \<and>
   getNumberOfJobsFromFileLocation ''json'' = Inl (IndexOutOfRange (- 1))"
proof -
  let ?toks = "FieldsFunc fl fileLocationSplitter"
  let ?tok = "?toks ! (length ?toks - 2)"
  have a: "getNumberOfJobsFromFileLocation fl = Inl (IndexOutOfRange (int (length ?toks) - 2))"
    if "length ?toks < 2"
    using that by (simp add: getNumberOfJobsFromFileLocation_def Let_def)
  have b: "getLastJobID me = Inl (IndexOutOfRange (int (length ?toks) - 2))"
    if "length ?toks < 2" and "StartSeq me \<noteq> 0" and "FileLocation me = fl"
    using that a by (simp add: getLastJobID_def)
  have c: "getNumberOfJobsFromFileLocation fl =
            Inr (if 2 ^ 64 \<le> decimal_value (takeWhile isDigit (unsigned_part ?tok))
                 then (if negative_sign ?tok then - 9223372036854775808
                       else 9223372036854775807)
                 else 0)"
    if len: "2 \<le> length ?toks" and nd: "\<not> is_decimal_integer ?tok"
    using len ParseInt_not_decimal [OF nd]
    by (simp add: getNumberOfJobsFromFileLocation_def Let_def)
  have d: "getNumberOfJobsFromFileLocation [] = Inl (IndexOutOfRange (- 2))"
    by (simp add: jobs_eval)
  have e: "getNumberOfJobsFromFileLocation ''json'' = Inl (IndexOutOfRange (- 1))"
    by (simp add: jobs_eval)
  show ?thesis
    unfolding Let_def using a b c d e by blast
qed

theorem jobCount_short_or_nonnumeric_witness:
  "length (FieldsFunc ''json'' fileLocationSplitter) < 2 \<and>
   getLastJobID \<lparr>ID = 5, MigrationType = ''export'', FromNode = ''node1'', ToNode = ''node2'',
      FileLocation = ''json'', Status = ''exported'', StartSeq = 7, Payload = ''{}'',
      TimeStamp = 0\<rparr> = Inl (IndexOutOfRange (- 1)) \<and>
   2 \<le> length (FieldsFunc ''part_abc.json'' fileLocationSplitter) \<and>
   \<not> is_decimal_integer ''abc'' \<and>
   getNumberOfJobsFromFileLocation ''part_abc.json'' = Inr 0"
  using
    jobCount_short_or_nonnumeric [of "''json''" "\<lparr>ID = 5, MigrationType = ''export'',
      FromNode = ''node1'', ToNode = ''node2'', FileLocation = ''json'', Status = ''exported'',
      StartSeq = 7, Payload = ''{}'', TimeStamp = 0\<rparr>"]
    jobCount_short_or_nonnumeric [of "''part_abc.json''"]
  by (simp add: jobs_eval is_decimal_integer_def unsigned_part_def negative_sign_def
      decimal_value_def)

subsection \<open>Checkpoints: assertions, reads and writes\<close>

lemma Checkpoint_unsupported:
  assumes "\<not> (MigrationType ev = ExportOp \<or> MigrationType ev = ImportOp \<or>
              MigrationType ev = AcceptNewEventsOp)"
  shows "CheckpointInTxn jd drv now txn ev =
           (Inl (AssertFailed (unsupported_operation (MigrationType ev))), jd)"
  using assms by (simp add: CheckpointInTxn_def assert_def)

lemma Checkpoint_supported:
  assumes "MigrationType ev = ExportOp \<or> MigrationType ev = ImportOp \<or>
           MigrationType ev = AcceptNewEventsOp"
  shows "CheckpointInTxn jd drv now txn ev =
     (if drv = PrepareFails then (Inl (AssertError ErrPrepare), jd)
      else case checkpoint_statement jd drv now ev of
             (Inl err, jd1) \<Rightarrow> (if txn = None then (Inl (AssertError err), jd1) else (Inr 0, jd1))
           | (Inr meID, jd1) \<Rightarrow> (Inr meID, jd1))"
  using assms
  by (auto simp: CheckpointInTxn_def assert_def assertError_def split: prod.splits sum.splits)

text \<open>
  C8. For every node, \<open>NewSetupCheckpointEvent\<close> builds, for \<open>export\<close>, an event from the
  node to \<open>All\<close> with status \<open>setup_for_export\<close>; for \<open>acceptNewEvents\<close>, an event from
  \<open>All\<close> to the node with status \<open>setup_to_accept_new_events\<close>; for \<open>import\<close>, an event
  from \<open>All\<close> to the node with status \<open>setup_for_import\<close>. In every case the id and the
  start sequence are 0, the file location is the status string and the payload is \<open>{}\<close>.
\<close>

theorem NewSetupCheckpointEvent_canonical:
  "NewSetupCheckpointEvent ''export'' node now =
     Inr \<lparr>ID = 0, MigrationType = ''export'', FromNode = node, ToNode = ''All'',
          FileLocation = ''setup_for_export'', Status = ''setup_for_export'', StartSeq = 0,
          Payload = ''{}'', TimeStamp = now\<rparr> \<and>
   NewSetupCheckpointEvent ''acceptNewEvents'' node now =
     Inr \<lparr>ID = 0, MigrationType = ''acceptNewEvents'', FromNode = ''All'', ToNode = node,
          FileLocation = ''setup_to_accept_new_events'',
          Status = ''setup_to_accept_new_events'', StartSeq = 0,
          Payload = ''{}'', TimeStamp = now\<rparr> \<and>
   NewSetupCheckpointEvent ''import'' node now =
     Inr \<lparr>ID = 0, MigrationType = ''import'', FromNode = ''All'', ToNode = node,
          FileLocation = ''setup_for_import'', Status = ''setup_for_import'', StartSeq = 0,
          Payload = ''{}'', TimeStamp = now\<rparr> \<and>
   ExportOp = ''export'' \<and> AcceptNewEventsOp = ''acceptNewEvents'' \<and> ImportOp = ''import'' \<and>
   SetupForExport = ''setup_for_export'' \<and>
   SetupToAcceptNewEvents = ''setup_to_accept_new_events'' \<and>
   SetupForImport = ''setup_for_import''"
  by (simp add: NewSetupCheckpointEvent_def NewMigrationEvent_def ExportOp_def
      AcceptNewEventsOp_def ImportOp_def SetupForExport_def SetupToAcceptNewEvents_def
      SetupForImport_def)

lemma GetSetupCheckpoint_ok:
  "GetSetupCheckpoint jd DriverOK mt =
     (case sql_select_checkpoints jd mt (setupStatus mt) of
        [] \<Rightarrow> Inr None
      | [e] \<Rightarrow> Inr (Some e)
      | _ \<Rightarrow> Inl (Panic ''More than 1 setup event found. This should not happen''))"
  by (simp add: GetSetupCheckpoint_def GetCheckpoints_def assertError_def)

lemma GetSetupCheckpoint_driver:
  "drv \<noteq> DriverOK \<Longrightarrow> \<exists>f. GetSetupCheckpoint jd drv mt = Inl f"
  by (cases drv) (simp_all add: GetSetupCheckpoint_def GetCheckpoints_def assertError_def)

text \<open>
  C1. For every migration type, and so for \<open>export\<close>, \<open>import\<close> and \<open>acceptNewEvents\<close>, with
  setup status \<open>setup_for_export\<close>, \<open>setup_for_import\<close> and \<open>setup_to_accept_new_events\<close>:
  when the driver reports no error, \<open>GetSetupCheckpoint\<close> returns no event when the table
  holds no event of that type with its setup status, that event when it holds exactly one,
  and aborts with a panic when it holds more than one. A driver error on the read is fatal.
\<close>

theorem GetSetupCheckpoint_zero_one_many:
  "(let setupEvents = filter (\<lambda>r. MigrationType r = migrationType \<and>
                                   Status r = setupStatus migrationType) (rows jd)
    in (setupEvents = [] \<longrightarrow> GetSetupCheckpoint jd DriverOK migrationType = Inr None) \<and>
       (\<forall>e. setupEvents = [e] \<longrightarrow>
          GetSetupCheckpoint jd DriverOK migrationType = Inr (Some e)) \<and>
       (2 \<le> length setupEvents \<longrightarrow>
          GetSetupCheckpoint jd DriverOK migrationType =
            Inl (Panic ''More than 1 setup event found. This should not happen''))) \<and>
   (drv \<noteq> DriverOK \<longrightarrow> (\<exists>f. GetSetupCheckpoint jd drv migrationType = Inl f)) \<and>
   setupStatus ExportOp = SetupForExport \<and>
   setupStatus ImportOp = SetupForImport \<and>
   setupStatus AcceptNewEventsOp = SetupToAcceptNewEvents"
proof -
  let ?es = "filter (\<lambda>r. MigrationType r = migrationType \<and>
                          Status r = setupStatus migrationType) (rows jd)"
  let ?sel = "sql_select_checkpoints jd migrationType (setupStatus migrationType)"
  have sel: "?sel = sort_key (\<lambda>r. sint (ID r)) ?es"
    by (simp add: sql_select_checkpoints_def)
  have a: "GetSetupCheckpoint jd DriverOK migrationType = Inr None" if "?es = []"
    using that by (simp add: GetSetupCheckpoint_ok sel)
  have b: "GetSetupCheckpoint jd DriverOK migrationType = Inr (Some e)" if "?es = [e]" for e
    using that by (simp add: GetSetupCheckpoint_ok sel)
  have c: "GetSetupCheckpoint jd DriverOK migrationType =
            Inl (Panic ''More than 1 setup event found. This should not happen'')"
    if "2 \<le> length ?es"
  proof -
    from that have "2 \<le> length ?sel" by (simp add: sel)
    then obtain x y zs where "?sel = x # y # zs"
      by (cases ?sel; cases "tl ?sel") auto
    then show ?thesis by (simp add: GetSetupCheckpoint_ok)
  qed
  have d: "\<exists>f. GetSetupCheckpoint jd drv migrationType = Inl f" if "drv \<noteq> DriverOK"
    using that by (rule GetSetupCheckpoint_driver)
  have s: "setupStatus ExportOp = SetupForExport \<and> setupStatus ImportOp = SetupForImport \<and>
           setupStatus AcceptNewEventsOp = SetupToAcceptNewEvents"
    by (simp add: setupStatus_def ExportOp_def ImportOp_def AcceptNewEventsOp_def)
  show ?thesis unfolding Let_def using a b c d s by blast
qed

theorem GetSetupCheckpoint_zero_one_many_witness:
  "GetSetupCheckpoint \<lparr>rows = [], next_id = 1\<rparr> DriverOK ''export'' = Inr None \<and>
   GetSetupCheckpoint
     \<lparr>rows = [\<lparr>ID = 1, MigrationType = ''export'', FromNode = ''node1'', ToNode = ''All'',
               FileLocation = ''setup_for_export'', Status = ''setup_for_export'',
               StartSeq = 0, Payload = ''{}'', TimeStamp = 7\<rparr>], next_id = 2\<rparr>
     DriverOK ''export'' =
     Inr (Some \<lparr>ID = 1, MigrationType = ''export'', FromNode = ''node1'', ToNode = ''All'',
               FileLocation = ''setup_for_export'', Status = ''setup_for_export'',
               StartSeq = 0, Payload = ''{}'', TimeStamp = 7\<rparr>) \<and>
   GetSetupCheckpoint
     \<lparr>rows = [\<lparr>ID = 1, MigrationType = ''export'', FromNode = ''node1'', ToNode = ''All'',
               FileLocation = ''setup_for_export'', Status = ''setup_for_export'',
               StartSeq = 0, Payload = ''{}'', TimeStamp = 7\<rparr>,
              \<lparr>ID = 2, MigrationType = ''export'', FromNode = ''node2'', ToNode = ''All'',
               FileLocation = ''inserted_directly'', Status = ''setup_for_export'',
               StartSeq = 0, Payload = ''{}'', TimeStamp = 8\<rparr>], next_id = 3\<rparr>
     DriverOK ''export'' =
     Inl (Panic ''More than 1 setup event found. This should not happen'') \<and>
   (\<exists>f. GetSetupCheckpoint \<lparr>rows = [], next_id = 1\<rparr> QueryFails ''export'' = Inl f)"
  using
    GetSetupCheckpoint_zero_one_many [of "''export''" "\<lparr>rows = [], next_id = 1\<rparr>" QueryFails]
    GetSetupCheckpoint_zero_one_many [of "''export''"
      "\<lparr>rows = [\<lparr>ID = 1, MigrationType = ''export'', FromNode = ''node1'', ToNode = ''All'',
               FileLocation = ''setup_for_export'', Status = ''setup_for_export'',
               StartSeq = 0, Payload = ''{}'', TimeStamp = 7\<rparr>], next_id = 2\<rparr>"]
    GetSetupCheckpoint_zero_one_many [of "''export''"
      "\<lparr>rows = [\<lparr>ID = 1, MigrationType = ''export'', FromNode = ''node1'', ToNode = ''All'',
               FileLocation = ''setup_for_export'', Status = ''setup_for_export'',
               StartSeq = 0, Payload = ''{}'', TimeStamp = 7\<rparr>,
              \<lparr>ID = 2, MigrationType = ''export'', FromNode = ''node2'', ToNode = ''All'',
               FileLocation = ''inserted_directly'', Status = ''setup_for_export'',
               StartSeq = 0, Payload = ''{}'', TimeStamp = 8\<rparr>], next_id = 3\<rparr>"]
  by (simp add: setupStatus_def ExportOp_def SetupForExport_def)

lemma getSeqNoForFileFromDB_unsupported:
  assumes "\<not> (migrationType = ExportOp \<or> migrationType = ImportOp)"
  shows "getSeqNoForFileFromDB jd drv fileLocation migrationType =
           Inl (AssertFailed (unsupported_operation migrationType))"
  using assms by (simp add: getSeqNoForFileFromDB_def assert_def)

lemma getSeqNoForFileFromDB_supported:
  assumes "migrationType = ExportOp \<or> migrationType = ImportOp"
  shows "getSeqNoForFileFromDB jd drv fileLocation migrationType =
     (if drv = PrepareFails \<or> drv = QueryFails then Inl NilDereference
      else Inr (case sql_select_start_sequence jd fileLocation migrationType of
                  [] \<Rightarrow> 0 | sequenceNumber # _ \<Rightarrow> sequenceNumber))"
  using assms
  by (auto simp: getSeqNoForFileFromDB_def assert_def assertError_def split: list.splits)

text \<open>
  C5, as stated, fails for \<open>getSeqNoForFileFromDB\<close>: its assertion lists \<open>export\<close> and
  \<open>import\<close> only, so \<open>acceptNewEvents\<close>, one of the three recognised types, is refused.
\<close>

theorem getSeqNoForFileFromDB_acceptNewEvents_counterexample:
  "AcceptNewEventsOp = ''acceptNewEvents'' \<and>
   getSeqNoForFileFromDB \<lparr>rows = [], next_id = 1\<rparr> DriverOK ''export_1_2_3_4.json''
       ''acceptNewEvents'' =
     Inl (AssertFailed
       ''MigrationType: acceptNewEvents is not a supported operation. Should be export or import'')"
  by (simp add: getSeqNoForFileFromDB_def assert_def unsupported_operation_def ExportOp_def
      ImportOp_def AcceptNewEventsOp_def)

text \<open>
  C5, amended. \<open>Checkpoint\<close> and \<open>CheckpointInTxn\<close> fail their assertion exactly when the
  migration type of the event is none of \<open>export\<close>, \<open>import\<close> and \<open>acceptNewEvents\<close>, and then
  leave the table as it was; \<open>getSeqNoForFileFromDB\<close> fails its assertion exactly when the
  migration type is neither \<open>export\<close> nor \<open>import\<close>. With an admitted type and a driver that
  reports no error the operation goes on: \<open>Checkpoint\<close> runs its statement, and
  \<open>getSeqNoForFileFromDB\<close> returns the start sequence of the newest matching row, or 0.
\<close>

theorem migration_type_assertions:
  "((\<exists>msg. fst (Checkpoint jd drv now ev) = Inl (AssertFailed msg)) \<longleftrightarrow>
      MigrationType ev \<notin> {ExportOp, ImportOp, AcceptNewEventsOp}) \<and>
   ((\<exists>msg. fst (CheckpointInTxn jd drv now txn ev) = Inl (AssertFailed msg)) \<longleftrightarrow>
      MigrationType ev \<notin> {ExportOp, ImportOp, AcceptNewEventsOp}) \<and>
   ((\<exists>msg. getSeqNoForFileFromDB jd drv fileLocation migrationType = Inl (AssertFailed msg)) \<longleftrightarrow>
      migrationType \<notin> {ExportOp, ImportOp}) \<and>
   (MigrationType ev \<notin> {ExportOp, ImportOp, AcceptNewEventsOp} \<longrightarrow>
      CheckpointInTxn jd drv now txn ev =
        (Inl (AssertFailed (unsupported_operation (MigrationType ev))), jd)) \<and>
   (MigrationType ev \<in> {ExportOp, ImportOp, AcceptNewEventsOp} \<and> drv = DriverOK \<longrightarrow>
      Checkpoint jd drv now ev =
        (case checkpoint_statement jd drv now ev of
           (Inl err, jd1) \<Rightarrow> (Inl (AssertError err), jd1)
         | (Inr meID, jd1) \<Rightarrow> (Inr meID, jd1))) \<and>
   (migrationType \<in> {ExportOp, ImportOp} \<and> drv = DriverOK \<longrightarrow>
      getSeqNoForFileFromDB jd drv fileLocation migrationType =
        Inr (case sql_select_start_sequence jd fileLocation migrationType of
               [] \<Rightarrow> 0 | sequenceNumber # _ \<Rightarrow> sequenceNumber))"
proof -
  let ?three = "MigrationType ev = ExportOp \<or> MigrationType ev = ImportOp \<or>
                MigrationType ev = AcceptNewEventsOp"
  have three: "MigrationType ev \<in> {ExportOp, ImportOp, AcceptNewEventsOp} \<longleftrightarrow> ?three"
    by auto
  have two: "migrationType \<in> {ExportOp, ImportOp} \<longleftrightarrow>
               migrationType = ExportOp \<or> migrationType = ImportOp"
    by auto
  have a: "(\<exists>msg. fst (CheckpointInTxn jd drv now t ev) = Inl (AssertFailed msg)) \<longleftrightarrow>
             \<not> ?three" for t
  proof (cases ?three)
    case True
    then show ?thesis
      by (auto simp: Checkpoint_supported split: prod.splits sum.splits)
  next
    case False
    then show ?thesis by (simp add: Checkpoint_unsupported)
  qed
  have b: "(\<exists>msg. getSeqNoForFileFromDB jd drv fileLocation migrationType =
                    Inl (AssertFailed msg)) \<longleftrightarrow>
             \<not> (migrationType = ExportOp \<or> migrationType = ImportOp)"
  proof (cases "migrationType = ExportOp \<or> migrationType = ImportOp")
    case True
    then show ?thesis by (simp add: getSeqNoForFileFromDB_supported)
  next
    case False
    then show ?thesis by (simp add: getSeqNoForFileFromDB_unsupported)
  qed
  have c: "CheckpointInTxn jd drv now txn ev =
             (Inl (AssertFailed (unsupported_operation (MigrationType ev))), jd)"
    if "\<not> ?three"
    using that by (rule Checkpoint_unsupported)
  have d: "Checkpoint jd drv now ev =
        (case checkpoint_statement jd drv now ev of
           (Inl err, jd1) \<Rightarrow> (Inl (AssertError err), jd1)
         | (Inr meID, jd1) \<Rightarrow> (Inr meID, jd1))"
    if "?three" and "drv = DriverOK"
    using that
    by (auto simp: Checkpoint_def Checkpoint_supported split: prod.splits sum.splits)
  have e: "getSeqNoForFileFromDB jd drv fileLocation migrationType =
        Inr (case sql_select_start_sequence jd fileLocation migrationType of
               [] \<Rightarrow> 0 | sequenceNumber # _ \<Rightarrow> sequenceNumber)"
    if "migrationType = ExportOp \<or> migrationType = ImportOp" and "drv = DriverOK"
    using that by (simp add: getSeqNoForFileFromDB_supported)
  show ?thesis
    unfolding three two Checkpoint_def [of jd drv now ev]
    using a [of None] a [of txn] b c d [unfolded Checkpoint_def] e by blast
qed

theorem migration_type_assertions_witness:
  "fst (Checkpoint \<lparr>rows = [], next_id = 1\<rparr> DriverOK 5
      \<lparr>ID = 0, MigrationType = ''rename'', FromNode = ''node1'', ToNode = ''node2'',
       FileLocation = ''export_node1_to_node2_42_17.json'', Status = ''exported'',
       StartSeq = 100, Payload = ''{}'', TimeStamp = 4\<rparr>) =
     Inl (AssertFailed
       ''MigrationType: rename is not a supported operation. Should be export or import'') \<and>
   Checkpoint \<lparr>rows = [], next_id = 1\<rparr> DriverOK 5
      \<lparr>ID = 0, MigrationType = ''acceptNewEvents'', FromNode = ''All'', ToNode = ''node2'',
       FileLocation = ''setup_to_accept_new_events'', Status = ''setup_to_accept_new_events'',
       StartSeq = 0, Payload = ''{}'', TimeStamp = 4\<rparr> =
     (Inr 1,
      \<lparr>rows = [\<lparr>ID = 1, MigrationType = ''acceptNewEvents'', FromNode = ''All'',
                ToNode = ''node2'', FileLocation = ''setup_to_accept_new_events'',
                Status = ''setup_to_accept_new_events'', StartSeq = 0, Payload = ''{}'',
                TimeStamp = 5\<rparr>], next_id = 2\<rparr>) \<and>
   getSeqNoForFileFromDB
      \<lparr>rows = [\<lparr>ID = 1, MigrationType = ''import'', FromNode = ''node1'', ToNode = ''node2'',
                FileLocation = ''export_node1_to_node2_42_17.json'', Status = ''imported'',
                StartSeq = 100, Payload = ''{}'', TimeStamp = 4\<rparr>], next_id = 2\<rparr>
      DriverOK ''export_node1_to_node2_42_17.json'' ''import'' = Inr 100 \<and>
   getSeqNoForFileFromDB \<lparr>rows = [], next_id = 1\<rparr> DriverOK
      ''export_node1_to_node2_42_17.json'' ''export'' = Inr 0"
  using
    migration_type_assertions [of "\<lparr>rows = [], next_id = 1\<rparr>" DriverOK 5
      "\<lparr>ID = 0, MigrationType = ''rename'', FromNode = ''node1'', ToNode = ''node2'',
       FileLocation = ''export_node1_to_node2_42_17.json'', Status = ''exported'',
       StartSeq = 100, Payload = ''{}'', TimeStamp = 4\<rparr>" None
      "''export_node1_to_node2_42_17.json''" "''export''"]
    migration_type_assertions [of "\<lparr>rows = [], next_id = 1\<rparr>" DriverOK 5
      "\<lparr>ID = 0, MigrationType = ''acceptNewEvents'', FromNode = ''All'', ToNode = ''node2'',
       FileLocation = ''setup_to_accept_new_events'', Status = ''setup_to_accept_new_events'',
       StartSeq = 0, Payload = ''{}'', TimeStamp = 4\<rparr>" None
      "''export_node1_to_node2_42_17.json''" "''export''"]
    migration_type_assertions [of
      "\<lparr>rows = [\<lparr>ID = 1, MigrationType = ''import'', FromNode = ''node1'', ToNode = ''node2'',
                FileLocation = ''export_node1_to_node2_42_17.json'', Status = ''imported'',
                StartSeq = 100, Payload = ''{}'', TimeStamp = 4\<rparr>], next_id = 2\<rparr>"
      DriverOK 5
      "\<lparr>ID = 0, MigrationType = ''rename'', FromNode = ''node1'', ToNode = ''node2'',
       FileLocation = ''export_node1_to_node2_42_17.json'', Status = ''exported'',
       StartSeq = 100, Payload = ''{}'', TimeStamp = 4\<rparr>" None
      "''export_node1_to_node2_42_17.json''" "''import''"]
  by (simp add: ExportOp_def ImportOp_def AcceptNewEventsOp_def unsupported_operation_def
      checkpoint_statement_def sql_insert_on_conflict_def sql_select_start_sequence_def
      word_sless_alt Checkpoint_def)

text \<open>
  C4, as stated, fails in its second half. With a transaction handle, a failed statement
  (a driver error on an insert, or an update of an id that is not there) makes
  \<open>CheckpointInTxn\<close> return the id 0 and nothing else: the function has no error result.
  A failed \<^verbatim>\<open>Prepare\<close> aborts the process even with a transaction handle.
\<close>

theorem CheckpointInTxn_error_not_returned_counterexample:
  "CheckpointInTxn \<lparr>rows = [], next_id = 1\<rparr> QueryFails 5 (Some (Tx 1))
      \<lparr>ID = 0, MigrationType = ''export'', FromNode = ''node1'', ToNode = ''node2'',
       FileLocation = ''export_node1_to_node2_42_17.json'', Status = ''exported'',
       StartSeq = 100, Payload = ''{}'', TimeStamp = 4\<rparr> =
     (Inr 0, \<lparr>rows = [], next_id = 1\<rparr>) \<and>
   CheckpointInTxn \<lparr>rows = [], next_id = 1\<rparr> DriverOK 5 (Some (Tx 1))
      \<lparr>ID = 9, MigrationType = ''export'', FromNode = ''node1'', ToNode = ''node2'',
       FileLocation = ''export_node1_to_node2_42_17.json'', Status = ''exported'',
       StartSeq = 100, Payload = ''{}'', TimeStamp = 4\<rparr> =
     (Inr 0, \<lparr>rows = [], next_id = 1\<rparr>) \<and>
   CheckpointInTxn \<lparr>rows = [], next_id = 1\<rparr> PrepareFails 5 (Some (Tx 1))
      \<lparr>ID = 0, MigrationType = ''export'', FromNode = ''node1'', ToNode = ''node2'',
       FileLocation = ''export_node1_to_node2_42_17.json'', Status = ''exported'',
       StartSeq = 100, Payload = ''{}'', TimeStamp = 4\<rparr> =
     (Inl (AssertError ErrPrepare), \<lparr>rows = [], next_id = 1\<rparr>)"
  by (simp add: CheckpointInTxn_def assert_def assertError_def ExportOp_def
      checkpoint_statement_def sql_update_def word_sless_alt)

text \<open>
  C4, amended. For an event of an admitted migration type: an error from \<^verbatim>\<open>Prepare\<close> is
  fatal whether or not a transaction handle is passed. An error from running the statement
  is fatal when no transaction handle is passed; with a transaction handle it is neither
  fatal nor returned, and the call returns the id 0. A statement that succeeds returns its
  id either way.
\<close>

theorem CheckpointInTxn_write_errors:
  assumes "MigrationType ev \<in> {ExportOp, ImportOp, AcceptNewEventsOp}"
  shows
    "(drv = PrepareFails \<longrightarrow>
        CheckpointInTxn jd drv now txn ev = (Inl (AssertError ErrPrepare), jd)) \<and>
     (drv = QueryFails \<longrightarrow> checkpoint_statement jd drv now ev = (Inl ErrQuery, jd)) \<and>
     (drv \<noteq> PrepareFails \<longrightarrow>
        (\<forall>err jd1. checkpoint_statement jd drv now ev = (Inl err, jd1) \<longrightarrow>
           CheckpointInTxn jd drv now None ev = (Inl (AssertError err), jd1) \<and>
           (\<forall>tx. CheckpointInTxn jd drv now (Some tx) ev = (Inr 0, jd1))) \<and>
        (\<forall>meID jd1. checkpoint_statement jd drv now ev = (Inr meID, jd1) \<longrightarrow>
           CheckpointInTxn jd drv now txn ev = (Inr meID, jd1)))"
proof -
  from assms have sup: "MigrationType ev = ExportOp \<or> MigrationType ev = ImportOp \<or>
      MigrationType ev = AcceptNewEventsOp"
    by auto
  have a: "CheckpointInTxn jd drv now txn ev = (Inl (AssertError ErrPrepare), jd)"
    if "drv = PrepareFails"
    using that by (simp add: Checkpoint_supported [OF sup])
  have q: "checkpoint_statement jd drv now ev = (Inl ErrQuery, jd)" if "drv = QueryFails"
    using that by (simp add: checkpoint_statement_def)
  have b: "CheckpointInTxn jd drv now None ev = (Inl (AssertError err), jd1)"
    if "drv \<noteq> PrepareFails" and "checkpoint_statement jd drv now ev = (Inl err, jd1)"
    for err jd1
    using that by (simp add: Checkpoint_supported [OF sup])
  have c: "CheckpointInTxn jd drv now (Some tx) ev = (Inr 0, jd1)"
    if "drv \<noteq> PrepareFails" and "checkpoint_statement jd drv now ev = (Inl err, jd1)"
    for err jd1 tx
    using that by (simp add: Checkpoint_supported [OF sup])
  have d: "CheckpointInTxn jd drv now txn ev = (Inr meID, jd1)"
    if "drv \<noteq> PrepareFails" and "checkpoint_statement jd drv now ev = (Inr meID, jd1)"
    for meID jd1
    using that by (simp add: Checkpoint_supported [OF sup])
  show ?thesis using a q b c d by blast
qed

theorem CheckpointInTxn_write_errors_witness:
  "''export'' \<in> {ExportOp, ImportOp, AcceptNewEventsOp} \<and>
   CheckpointInTxn \<lparr>rows = [], next_id = 1\<rparr> QueryFails 5 None
      \<lparr>ID = 0, MigrationType = ''export'', FromNode = ''node1'', ToNode = ''node2'',
       FileLocation = ''export_node1_to_node2_42_17.json'', Status = ''exported'',
       StartSeq = 100, Payload = ''{}'', TimeStamp = 4\<rparr> =
     (Inl (AssertError ErrQuery), \<lparr>rows = [], next_id = 1\<rparr>) \<and>
   CheckpointInTxn \<lparr>rows = [], next_id = 1\<rparr> QueryFails 5 (Some (Tx 1))
      \<lparr>ID = 0, MigrationType = ''export'', FromNode = ''node1'', ToNode = ''node2'',
       FileLocation = ''export_node1_to_node2_42_17.json'', Status = ''exported'',
       StartSeq = 100, Payload = ''{}'', TimeStamp = 4\<rparr> =
     (Inr 0, \<lparr>rows = [], next_id = 1\<rparr>) \<and>
   CheckpointInTxn \<lparr>rows = [], next_id = 1\<rparr> PrepareFails 5 (Some (Tx 1))
      \<lparr>ID = 0, MigrationType = ''export'', FromNode = ''node1'', ToNode = ''node2'',
       FileLocation = ''export_node1_to_node2_42_17.json'', Status = ''exported'',
       StartSeq = 100, Payload = ''{}'', TimeStamp = 4\<rparr> =
     (Inl (AssertError ErrPrepare), \<lparr>rows = [], next_id = 1\<rparr>) \<and>
   CheckpointInTxn \<lparr>rows = [], next_id = 1\<rparr> DriverOK 5 (Some (Tx 1))
      \<lparr>ID = 0, MigrationType = ''export'', FromNode = ''node1'', ToNode = ''node2'',
       FileLocation = ''export_node1_to_node2_42_17.json'', Status = ''exported'',
       StartSeq = 100, Payload = ''{}'', TimeStamp = 4\<rparr> =
     (Inr 1,
      \<lparr>rows = [\<lparr>ID = 1, MigrationType = ''export'', FromNode = ''node1'', ToNode = ''node2'',
                FileLocation = ''export_node1_to_node2_42_17.json'', Status = ''exported'',
                StartSeq = 100, Payload = ''{}'', TimeStamp = 5\<rparr>], next_id = 2\<rparr>)"
  using
    CheckpointInTxn_write_errors [of
      "\<lparr>ID = 0, MigrationType = ''export'', FromNode = ''node1'', ToNode = ''node2'',
       FileLocation = ''export_node1_to_node2_42_17.json'', Status = ''exported'',
       StartSeq = 100, Payload = ''{}'', TimeStamp = 4\<rparr>"
      QueryFails "\<lparr>rows = [], next_id = 1\<rparr>" 5 None]
    CheckpointInTxn_write_errors [of
      "\<lparr>ID = 0, MigrationType = ''export'', FromNode = ''node1'', ToNode = ''node2'',
       FileLocation = ''export_node1_to_node2_42_17.json'', Status = ''exported'',
       StartSeq = 100, Payload = ''{}'', TimeStamp = 4\<rparr>"
      PrepareFails "\<lparr>rows = [], next_id = 1\<rparr>" 5 "Some (Tx 1)"]
    CheckpointInTxn_write_errors [of
      "\<lparr>ID = 0, MigrationType = ''export'', FromNode = ''node1'', ToNode = ''node2'',
       FileLocation = ''export_node1_to_node2_42_17.json'', Status = ''exported'',
       StartSeq = 100, Payload = ''{}'', TimeStamp = 4\<rparr>"
      DriverOK "\<lparr>rows = [], next_id = 1\<rparr>" 5 "Some (Tx 1)"]
  by (simp add: ExportOp_def checkpoint_statement_def sql_insert_on_conflict_def word_sless_alt)

subsection \<open>The store keeps its schema\<close>

lemma key_columns_status:
  "FileLocation \<circ> (\<lambda>r. if P r then r\<lparr>Status := s\<rparr> else r) = FileLocation"
  "ID \<circ> (\<lambda>r. if P r then r\<lparr>Status := s\<rparr> else r) = ID"
  by (auto simp: fun_eq_iff)

lemma key_columns_update:
  "FileLocation \<circ> (\<lambda>r. if P r then r\<lparr>Status := s, StartSeq := q\<rparr> else r) = FileLocation"
  "ID \<circ> (\<lambda>r. if P r then r\<lparr>Status := s, StartSeq := q\<rparr> else r) = ID"
  by (auto simp: fun_eq_iff)

lemma sql_insert_on_conflict_Inr:
  assumes "sql_insert_on_conflict jd ev now = (Inr i, jd1)"
  shows "(\<exists>old. find (\<lambda>r. FileLocation r = FileLocation ev) (rows jd) = Some old \<and>
            i = ID old \<and>
            rows jd1 = map (\<lambda>r. if FileLocation r = FileLocation ev
                                  then r\<lparr>Status := Status ev\<rparr> else r) (rows jd)) \<or>
         (find (\<lambda>r. FileLocation r = FileLocation ev) (rows jd) = None \<and>
            \<not> list_ex (\<lambda>r. ID r = i) (rows jd) \<and>
            rows jd1 = rows jd @
              [\<lparr>ID = i, MigrationType = MigrationType ev, FromNode = FromNode ev,
                ToNode = ToNode ev, FileLocation = FileLocation ev, Status = Status ev,
                StartSeq = StartSeq ev, Payload = Payload ev, TimeStamp = now\<rparr>])"
  using assms
  by (auto simp: sql_insert_on_conflict_def Let_def split: if_splits option.splits)

lemma sql_insert_on_conflict_rows_Inl:
  "sql_insert_on_conflict jd ev now = (Inl e, jd1) \<Longrightarrow> rows jd1 = rows jd"
  by (auto simp: sql_insert_on_conflict_def Let_def split: if_splits option.splits)

lemma sql_update_rows:
  "sql_update jd s q i = (res, jd1) \<Longrightarrow>
     rows jd1 = rows jd \<or>
     rows jd1 = map (\<lambda>r. if ID r = i then r\<lparr>Status := s, StartSeq := q\<rparr> else r) (rows jd)"
  by (auto simp: sql_update_def split: if_splits)

lemma sql_insert_on_conflict_schema:
  assumes ok: "schema_ok jd" and run: "sql_insert_on_conflict jd ev now = (res, jd1)"
  shows "schema_ok jd1"
proof (cases res)
  case (Inl e)
  with run have "rows jd1 = rows jd" by (simp add: sql_insert_on_conflict_rows_Inl)
  with ok show ?thesis by (simp add: schema_ok_def)
next
  case (Inr i)
  with run have "sql_insert_on_conflict jd ev now = (Inr i, jd1)" by simp
  from sql_insert_on_conflict_Inr [OF this] show ?thesis
  proof (elim disjE exE conjE)
    fix old
    assume "rows jd1 = map (\<lambda>r. if FileLocation r = FileLocation ev
                                  then r\<lparr>Status := Status ev\<rparr> else r) (rows jd)"
    with ok show ?thesis
      by (simp add: schema_ok_def key_columns_status)
  next
    assume none: "find (\<lambda>r. FileLocation r = FileLocation ev) (rows jd) = None"
      and fresh: "\<not> list_ex (\<lambda>r. ID r = i) (rows jd)"
      and r: "rows jd1 = rows jd @
              [\<lparr>ID = i, MigrationType = MigrationType ev, FromNode = FromNode ev,
                ToNode = ToNode ev, FileLocation = FileLocation ev, Status = Status ev,
                StartSeq = StartSeq ev, Payload = Payload ev, TimeStamp = now\<rparr>]"
    from none have "FileLocation ev \<notin> FileLocation ` set (rows jd)"
      by (auto simp: find_None_iff)
    moreover from fresh have "i \<notin> ID ` set (rows jd)"
      by (auto simp: list_ex_iff)
    ultimately show ?thesis using ok r by (simp add: schema_ok_def)
  qed
qed

lemma sql_update_schema:
  assumes ok: "schema_ok jd" and run: "sql_update jd s q i = (res, jd1)"
  shows "schema_ok jd1"
  using sql_update_rows [OF run] ok
  by (auto simp: schema_ok_def key_columns_update)

lemma checkpoint_statement_schema:
  assumes ok: "schema_ok jd" and run: "checkpoint_statement jd drv now ev = (res, jd1)"
  shows "schema_ok jd1"
  using assms
  by (auto simp: checkpoint_statement_def split: if_splits
      dest: sql_update_schema sql_insert_on_conflict_schema)

lemma CheckpointInTxn_schema:
  assumes ok: "schema_ok jd" and run: "CheckpointInTxn jd drv now txn ev = (res, jd1)"
  shows "schema_ok jd1"
  using assms
  by (auto simp: CheckpointInTxn_def split: sum.splits prod.splits if_splits
      dest: checkpoint_statement_schema)

lemma Checkpoint_Inr_statement:
  assumes "Checkpoint jd drv now ev = (Inr i, jd1)"
  shows "checkpoint_statement jd drv now ev = (Inr i, jd1)"
  using assms
  by (auto simp: Checkpoint_def CheckpointInTxn_def assertError_def
      split: sum.splits prod.splits if_splits)

lemma Checkpoint_Inr_insert:
  assumes "Checkpoint jd drv now ev = (Inr i, jd1)" and "ID ev = 0"
  shows "sql_insert_on_conflict jd ev now = (Inr i, jd1)"
  using Checkpoint_Inr_statement [OF assms(1)] assms(2)
  by (auto simp: checkpoint_statement_def word_sless_alt split: if_splits)

lemma distinct_key_filter:
  "distinct (map k xs) \<Longrightarrow> x \<in> set xs \<Longrightarrow> filter (\<lambda>r. k r = k x) xs = [x]"
proof (induction xs)
  case Nil
  then show ?case by simp
next
  case (Cons y ys)
  show ?case
  proof (cases "x = y")
    case True
    from Cons.prems have "k y \<notin> k ` set ys" by simp
    then have "\<forall>r\<in>set ys. k r \<noteq> k y" by (metis imageI)
    then have "filter (\<lambda>r. k r = k y) ys = []"
      by (simp add: filter_empty_conv)
    with True show ?thesis by simp
  next
    case False
    with Cons.prems have xin: "x \<in> set ys" and d: "distinct (map k ys)" by auto
    from Cons.prems xin have "k y \<noteq> k x" by force
    with Cons.IH [OF d xin] show ?thesis by simp
  qed
qed

lemma find_single: "filter P xs = [x] \<Longrightarrow> find P xs = Some x"
  by (induction xs) (auto split: if_splits)

lemma sql_insert_on_conflict_row:
  assumes run: "sql_insert_on_conflict jd ev now = (Inr i, jd1)"
  shows "\<exists>r\<in>set (rows jd1). FileLocation r = FileLocation ev \<and> ID r = i \<and>
           Status r = Status ev"
  using sql_insert_on_conflict_Inr [OF run]
proof (elim disjE exE conjE)
  fix old
  assume f: "find (\<lambda>r. FileLocation r = FileLocation ev) (rows jd) = Some old"
    and i: "i = ID old"
    and r: "rows jd1 = map (\<lambda>r. if FileLocation r = FileLocation ev
                                  then r\<lparr>Status := Status ev\<rparr> else r) (rows jd)"
  from f have "old \<in> set (rows jd)" and fl: "FileLocation old = FileLocation ev"
    by (auto simp: find_Some_iff)
  then have "old\<lparr>Status := Status ev\<rparr> \<in> set (rows jd1)"
    using r by force
  then show ?thesis using i fl
    by (intro bexI [of _ "old\<lparr>Status := Status ev\<rparr>"]) simp_all
next
  assume "rows jd1 = rows jd @
              [\<lparr>ID = i, MigrationType = MigrationType ev, FromNode = FromNode ev,
                ToNode = ToNode ev, FileLocation = FileLocation ev, Status = Status ev,
                StartSeq = StartSeq ev, Payload = Payload ev, TimeStamp = now\<rparr>]"
  then show ?thesis by simp
qed

lemma filter_FileLocation_status:
  "filter (\<lambda>r. FileLocation r = f)
     (map (\<lambda>r. if FileLocation r = f then r\<lparr>Status := s\<rparr> else r) xs) =
   map (\<lambda>r. r\<lparr>Status := s\<rparr>) (filter (\<lambda>r. FileLocation r = f) xs)"
  by (induction xs) auto

lemma Checkpoint_twice_rows:
  assumes schema: "schema_ok jd"
    and id1: "ID e1 = 0" and id2: "ID e2 = 0"
    and same: "FileLocation e2 = FileLocation e1"
    and first: "Checkpoint jd drv1 now1 e1 = (Inr i1, jd1)"
    and second: "Checkpoint jd1 drv2 now2 e2 = (Inr i2, jd2)"
  shows "(\<exists>old. filter (\<lambda>r. FileLocation r = FileLocation e1) (rows jd1) = [old] \<and>
            filter (\<lambda>r. FileLocation r = FileLocation e1) (rows jd2) =
              [old\<lparr>Status := Status e2\<rparr>] \<and>
            Status old = Status e1 \<and> ID old = i1 \<and> i2 = i1) \<and>
         rows jd2 = map (\<lambda>r. if FileLocation r = FileLocation e1
                               then r\<lparr>Status := Status e2\<rparr> else r) (rows jd1) \<and>
         length (rows jd2) = length (rows jd1) \<and>
         schema_ok jd2 \<and>
         (rows jd = [] \<longrightarrow> length (rows jd2) = 1)"
proof -
  let ?f = "FileLocation e1"
  let ?P = "\<lambda>r. FileLocation r = ?f"
  have ins1: "sql_insert_on_conflict jd e1 now1 = (Inr i1, jd1)"
    using first id1 by (rule Checkpoint_Inr_insert)
  have ins2: "sql_insert_on_conflict jd1 e2 now2 = (Inr i2, jd2)"
    using second id2 by (rule Checkpoint_Inr_insert)
  have ok1: "schema_ok jd1"
    using schema ins1 by (rule sql_insert_on_conflict_schema)
  have ok2: "schema_ok jd2"
    using ok1 ins2 by (rule sql_insert_on_conflict_schema)
  from sql_insert_on_conflict_row [OF ins1]
  obtain old where old: "old \<in> set (rows jd1)" and fl: "FileLocation old = ?f"
    and oid: "ID old = i1" and ost: "Status old = Status e1"
    by blast
  have "filter (\<lambda>r. FileLocation r = FileLocation old) (rows jd1) = [old]"
    using ok1 old by (intro distinct_key_filter) (simp_all add: schema_ok_def)
  then have f1: "filter ?P (rows jd1) = [old]" by (simp add: fl)
  then have found: "find (\<lambda>r. FileLocation r = FileLocation e2) (rows jd1) = Some old"
    by (simp add: same find_single)
  from sql_insert_on_conflict_Inr [OF ins2] found
  have i2: "i2 = ID old"
    and r2: "rows jd2 = map (\<lambda>r. if ?P r then r\<lparr>Status := Status e2\<rparr> else r) (rows jd1)"
    by (auto simp: same)
  have f2: "filter ?P (rows jd2) = [old\<lparr>Status := Status e2\<rparr>]"
    by (simp add: r2 filter_FileLocation_status f1)
  have len: "length (rows jd2) = length (rows jd1)" by (simp add: r2)
  have one: "length (rows jd2) = 1" if "rows jd = []"
  proof -
    from sql_insert_on_conflict_Inr [OF ins1] that have "length (rows jd1) = 1"
      by auto
    with len show ?thesis by simp
  qed
  show ?thesis using f1 f2 ost oid i2 r2 len ok2 one by blast
qed

subsection \<open>When a checkpoint returns\<close>

lemma sql_insert_on_conflict_returns:
  assumes seq: "next_id jd \<le> 9223372036854775807"
    and fresh: "list_ex (\<lambda>r. FileLocation r = FileLocation ev) (rows jd) \<or>
                \<not> list_ex (\<lambda>r. ID r = word_of_int (next_id jd)) (rows jd)"
  shows "\<exists>i jd1. sql_insert_on_conflict jd ev now = (Inr i, jd1) \<and>
           next_id jd1 = next_id jd + 1"
proof (cases "find (\<lambda>r. FileLocation r = FileLocation ev) (rows jd)")
  case None
  then have "\<not> list_ex (\<lambda>r. FileLocation r = FileLocation ev) (rows jd)"
    by (auto simp: find_None_iff list_ex_iff)
  with fresh have "\<not> list_ex (\<lambda>r. ID r = word_of_int (next_id jd)) (rows jd)" by simp
  with None seq show ?thesis
    by (simp add: sql_insert_on_conflict_def Let_def)
next
  case (Some old)
  with seq show ?thesis
    by (simp add: sql_insert_on_conflict_def Let_def)
qed

lemma sql_insert_on_conflict_Inr_conditions:
  assumes "sql_insert_on_conflict jd ev now = (Inr i, jd1)"
  shows "next_id jd \<le> 9223372036854775807 \<and> next_id jd1 = next_id jd + 1 \<and>
         (list_ex (\<lambda>r. FileLocation r = FileLocation ev) (rows jd) \<or>
          \<not> list_ex (\<lambda>r. ID r = word_of_int (next_id jd)) (rows jd))"
proof (cases "find (\<lambda>r. FileLocation r = FileLocation ev) (rows jd)")
  case None
  with assms show ?thesis
    by (auto simp: sql_insert_on_conflict_def Let_def split: if_splits)
next
  case (Some old)
  then have "list_ex (\<lambda>r. FileLocation r = FileLocation ev) (rows jd)"
    by (auto simp: find_Some_iff list_ex_iff)
  with assms Some show ?thesis
    by (auto simp: sql_insert_on_conflict_def Let_def split: if_splits)
qed

lemma Checkpoint_insert_returns:
  assumes sup: "MigrationType ev = ExportOp \<or> MigrationType ev = ImportOp \<or>
                MigrationType ev = AcceptNewEventsOp"
    and id: "ID ev = 0"
    and seq: "next_id jd \<le> 9223372036854775807"
    and fresh: "list_ex (\<lambda>r. FileLocation r = FileLocation ev) (rows jd) \<or>
                \<not> list_ex (\<lambda>r. ID r = word_of_int (next_id jd)) (rows jd)"
  shows "\<exists>i jd1. Checkpoint jd DriverOK now ev = (Inr i, jd1) \<and>
           next_id jd1 = next_id jd + 1"
proof -
  from sql_insert_on_conflict_returns [OF seq fresh]
  obtain i jd1 where ins: "sql_insert_on_conflict jd ev now = (Inr i, jd1)"
    and n: "next_id jd1 = next_id jd + 1"
    by blast
  from id ins have "checkpoint_statement jd DriverOK now ev = (Inr i, jd1)"
    by (simp add: checkpoint_statement_def word_sless_alt)
  then have "Checkpoint jd DriverOK now ev = (Inr i, jd1)"
    by (simp add: Checkpoint_def Checkpoint_supported [OF sup])
  with n show ?thesis by blast
qed

lemma Checkpoint_insert_Inr_conditions:
  assumes run: "Checkpoint jd drv now ev = (Inr i, jd1)" and id: "ID ev = 0"
  shows "drv = DriverOK \<and>
         (MigrationType ev = ExportOp \<or> MigrationType ev = ImportOp \<or>
          MigrationType ev = AcceptNewEventsOp) \<and>
         next_id jd \<le> 9223372036854775807 \<and> next_id jd1 = next_id jd + 1 \<and>
         (list_ex (\<lambda>r. FileLocation r = FileLocation ev) (rows jd) \<or>
          \<not> list_ex (\<lambda>r. ID r = word_of_int (next_id jd)) (rows jd))"
proof -
  have sup: "MigrationType ev = ExportOp \<or> MigrationType ev = ImportOp \<or>
             MigrationType ev = AcceptNewEventsOp"
  proof (rule ccontr)
    assume "\<not> ?thesis"
    from Checkpoint_unsupported [OF this] run show False
      by (simp add: Checkpoint_def)
  qed
  have drv: "drv = DriverOK"
    using run
    by (cases drv)
       (simp_all add: Checkpoint_def Checkpoint_supported [OF sup] checkpoint_statement_def)
  from sql_insert_on_conflict_Inr_conditions [OF Checkpoint_Inr_insert [OF run id]] sup drv
  show ?thesis by blast
qed

text \<open>
  C3. Take a table that satisfies its schema and two events with \<open>ID = 0\<close> and the same
  file location. When the driver reports no error, both events have a recognised migration
  type, the sequence has two values left, and the next id of the sequence is not taken
  (or a row of that file location is there already), then checkpointing the two events one
  after the other returns twice, with the same id, and the table then holds exactly one row
  with that file location: the row the first call left, with only its status replaced by
  the status of the second event. Every other row is as it was, and on a table that was
  empty it is the only row. Under no other conditions do both calls return.
\<close>

theorem Checkpoint_same_FileLocation_twice:
  assumes schema: "schema_ok jd"
    and id1: "ID e1 = 0" and id2: "ID e2 = 0"
    and same: "FileLocation e2 = FileLocation e1"
  shows
    "((MigrationType e1 = ExportOp \<or> MigrationType e1 = ImportOp \<or>
       MigrationType e1 = AcceptNewEventsOp) \<and>
      (MigrationType e2 = ExportOp \<or> MigrationType e2 = ImportOp \<or>
       MigrationType e2 = AcceptNewEventsOp) \<and>
      next_id jd < 9223372036854775807 \<and>
      (list_ex (\<lambda>r. FileLocation r = FileLocation e1) (rows jd) \<or>
       \<not> list_ex (\<lambda>r. ID r = word_of_int (next_id jd)) (rows jd)) \<longrightarrow>
        (\<exists>i jd1 jd2 old.
           Checkpoint jd DriverOK now1 e1 = (Inr i, jd1) \<and>
           Checkpoint jd1 DriverOK now2 e2 = (Inr i, jd2) \<and>
           filter (\<lambda>r. FileLocation r = FileLocation e1) (rows jd1) = [old] \<and>
           Status old = Status e1 \<and> ID old = i \<and>
           filter (\<lambda>r. FileLocation r = FileLocation e1) (rows jd2) =
             [old\<lparr>Status := Status e2\<rparr>] \<and>
           rows jd2 = map (\<lambda>r. if FileLocation r = FileLocation e1
                                 then r\<lparr>Status := Status e2\<rparr> else r) (rows jd1) \<and>
           schema_ok jd2 \<and>
           (rows jd = [] \<longrightarrow> length (rows jd2) = 1))) \<and>
     (\<forall>i1 jd1 i2 jd2.
        Checkpoint jd drv1 now1 e1 = (Inr i1, jd1) \<and>
        Checkpoint jd1 drv2 now2 e2 = (Inr i2, jd2) \<longrightarrow>
          drv1 = DriverOK \<and> drv2 = DriverOK \<and>
          (MigrationType e1 = ExportOp \<or> MigrationType e1 = ImportOp \<or>
           MigrationType e1 = AcceptNewEventsOp) \<and>
          (MigrationType e2 = ExportOp \<or> MigrationType e2 = ImportOp \<or>
           MigrationType e2 = AcceptNewEventsOp) \<and>
          next_id jd < 9223372036854775807 \<and>
          (list_ex (\<lambda>r. FileLocation r = FileLocation e1) (rows jd) \<or>
           \<not> list_ex (\<lambda>r. ID r = word_of_int (next_id jd)) (rows jd)) \<and>
          (\<exists>old. filter (\<lambda>r. FileLocation r = FileLocation e1) (rows jd1) = [old] \<and>
             filter (\<lambda>r. FileLocation r = FileLocation e1) (rows jd2) =
               [old\<lparr>Status := Status e2\<rparr>] \<and>
             Status old = Status e1 \<and> ID old = i1 \<and> i2 = i1) \<and>
          rows jd2 = map (\<lambda>r. if FileLocation r = FileLocation e1
                                then r\<lparr>Status := Status e2\<rparr> else r) (rows jd1) \<and>
          length (rows jd2) = length (rows jd1) \<and>
          schema_ok jd2 \<and>
          (rows jd = [] \<longrightarrow> length (rows jd2) = 1))"
proof (intro conjI impI allI)
  assume c: "(MigrationType e1 = ExportOp \<or> MigrationType e1 = ImportOp \<or>
       MigrationType e1 = AcceptNewEventsOp) \<and>
      (MigrationType e2 = ExportOp \<or> MigrationType e2 = ImportOp \<or>
       MigrationType e2 = AcceptNewEventsOp) \<and>
      next_id jd < 9223372036854775807 \<and>
      (list_ex (\<lambda>r. FileLocation r = FileLocation e1) (rows jd) \<or>
       \<not> list_ex (\<lambda>r. ID r = word_of_int (next_id jd)) (rows jd))"
  then have t1: "MigrationType e1 = ExportOp \<or> MigrationType e1 = ImportOp \<or>
       MigrationType e1 = AcceptNewEventsOp"
    and t2: "MigrationType e2 = ExportOp \<or> MigrationType e2 = ImportOp \<or>
       MigrationType e2 = AcceptNewEventsOp"
    and seq: "next_id jd < 9223372036854775807"
    and fresh: "list_ex (\<lambda>r. FileLocation r = FileLocation e1) (rows jd) \<or>
       \<not> list_ex (\<lambda>r. ID r = word_of_int (next_id jd)) (rows jd)"
    by blast+
  from seq have seq1: "next_id jd \<le> 9223372036854775807" by simp
  from Checkpoint_insert_returns [OF t1 id1 seq1 fresh, of now1]
  obtain i1 jd1 where first: "Checkpoint jd DriverOK now1 e1 = (Inr i1, jd1)"
    and n1: "next_id jd1 = next_id jd + 1"
    by blast
  from sql_insert_on_conflict_row [OF Checkpoint_Inr_insert [OF first id1]]
  have "list_ex (\<lambda>r. FileLocation r = FileLocation e2) (rows jd1)"
    by (auto simp: list_ex_iff same)
  then have fresh2: "list_ex (\<lambda>r. FileLocation r = FileLocation e2) (rows jd1) \<or>
       \<not> list_ex (\<lambda>r. ID r = word_of_int (next_id jd1)) (rows jd1)"
    by simp
  from seq n1 have seq2: "next_id jd1 \<le> 9223372036854775807" by simp
  from Checkpoint_insert_returns [OF t2 id2 seq2 fresh2, of now2]
  obtain i2 jd2 where second: "Checkpoint jd1 DriverOK now2 e2 = (Inr i2, jd2)"
    by blast
  from Checkpoint_twice_rows [OF schema id1 id2 same first second] first second
  show "\<exists>i jd1 jd2 old.
           Checkpoint jd DriverOK now1 e1 = (Inr i, jd1) \<and>
           Checkpoint jd1 DriverOK now2 e2 = (Inr i, jd2) \<and>
           filter (\<lambda>r. FileLocation r = FileLocation e1) (rows jd1) = [old] \<and>
           Status old = Status e1 \<and> ID old = i \<and>
           filter (\<lambda>r. FileLocation r = FileLocation e1) (rows jd2) =
             [old\<lparr>Status := Status e2\<rparr>] \<and>
           rows jd2 = map (\<lambda>r. if FileLocation r = FileLocation e1
                                 then r\<lparr>Status := Status e2\<rparr> else r) (rows jd1) \<and>
           schema_ok jd2 \<and>
           (rows jd = [] \<longrightarrow> length (rows jd2) = 1)"
    by blast
next
  fix i1 jd1 i2 jd2
  assume both: "Checkpoint jd drv1 now1 e1 = (Inr i1, jd1) \<and>
        Checkpoint jd1 drv2 now2 e2 = (Inr i2, jd2)"
  then have first: "Checkpoint jd drv1 now1 e1 = (Inr i1, jd1)"
    and second: "Checkpoint jd1 drv2 now2 e2 = (Inr i2, jd2)"
    by simp_all
  note c1 = Checkpoint_insert_Inr_conditions [OF first id1]
  note c2 = Checkpoint_insert_Inr_conditions [OF second id2]
  note r = Checkpoint_twice_rows [OF schema id1 id2 same first second]
  show "drv1 = DriverOK" using c1 by blast
  show "drv2 = DriverOK" using c2 by blast
  show "MigrationType e1 = ExportOp \<or> MigrationType e1 = ImportOp \<or>
        MigrationType e1 = AcceptNewEventsOp"
    using c1 by blast
  show "MigrationType e2 = ExportOp \<or> MigrationType e2 = ImportOp \<or>
        MigrationType e2 = AcceptNewEventsOp"
    using c2 by blast
  show "next_id jd < 9223372036854775807" using c1 c2 by simp
  show "list_ex (\<lambda>r. FileLocation r = FileLocation e1) (rows jd) \<or>
        \<not> list_ex (\<lambda>r. ID r = word_of_int (next_id jd)) (rows jd)"
    using c1 by blast
  show "\<exists>old. filter (\<lambda>r. FileLocation r = FileLocation e1) (rows jd1) = [old] \<and>
          filter (\<lambda>r. FileLocation r = FileLocation e1) (rows jd2) =
            [old\<lparr>Status := Status e2\<rparr>] \<and>
          Status old = Status e1 \<and> ID old = i1 \<and> i2 = i1"
    using r by blast
  show "rows jd2 = map (\<lambda>r. if FileLocation r = FileLocation e1
                             then r\<lparr>Status := Status e2\<rparr> else r) (rows jd1)"
    using r by blast
  show "length (rows jd2) = length (rows jd1)" using r by blast
  show "schema_ok jd2" using r by blast
  show "length (rows jd2) = 1" if "rows jd = []" using r that by blast
qed

theorem Checkpoint_same_FileLocation_twice_witness:
  "schema_ok
     \<lparr>rows = [\<lparr>ID = 1, MigrationType = ''export'', FromNode = ''node1'', ToNode = ''All'',
               FileLocation = ''setup_for_export'', Status = ''setup_for_export'',
               StartSeq = 0, Payload = ''{}'', TimeStamp = 1\<rparr>,
              \<lparr>ID = 2, MigrationType = ''export'', FromNode = ''node1'', ToNode = ''node2'',
               FileLocation = ''export_node1_to_node2_1_5.json'', Status = ''exported'',
               StartSeq = 1, Payload = ''{}'', TimeStamp = 2\<rparr>], next_id = 3\<rparr> \<and>
   Checkpoint
     \<lparr>rows = [\<lparr>ID = 1, MigrationType = ''export'', FromNode = ''node1'', ToNode = ''All'',
               FileLocation = ''setup_for_export'', Status = ''setup_for_export'',
               StartSeq = 0, Payload = ''{}'', TimeStamp = 1\<rparr>,
              \<lparr>ID = 2, MigrationType = ''export'', FromNode = ''node1'', ToNode = ''node2'',
               FileLocation = ''export_node1_to_node2_1_5.json'', Status = ''exported'',
               StartSeq = 1, Payload = ''{}'', TimeStamp = 2\<rparr>], next_id = 3\<rparr>
     DriverOK 5
     \<lparr>ID = 0, MigrationType = ''export'', FromNode = ''node1'', ToNode = ''node2'',
      FileLocation = ''export_node1_to_node2_42_17.json'', Status = ''exported'',
      StartSeq = 100, Payload = ''{}'', TimeStamp = 4\<rparr> =
     (Inr 3,
      \<lparr>rows = [\<lparr>ID = 1, MigrationType = ''export'', FromNode = ''node1'', ToNode = ''All'',
                FileLocation = ''setup_for_export'', Status = ''setup_for_export'',
                StartSeq = 0, Payload = ''{}'', TimeStamp = 1\<rparr>,
               \<lparr>ID = 2, MigrationType = ''export'', FromNode = ''node1'', ToNode = ''node2'',
                FileLocation = ''export_node1_to_node2_1_5.json'', Status = ''exported'',
                StartSeq = 1, Payload = ''{}'', TimeStamp = 2\<rparr>,
               \<lparr>ID = 3, MigrationType = ''export'', FromNode = ''node1'', ToNode = ''node2'',
                FileLocation = ''export_node1_to_node2_42_17.json'', Status = ''exported'',
                StartSeq = 100, Payload = ''{}'', TimeStamp = 5\<rparr>], next_id = 4\<rparr>) \<and>
   Checkpoint
     \<lparr>rows = [\<lparr>ID = 1, MigrationType = ''export'', FromNode = ''node1'', ToNode = ''All'',
               FileLocation = ''setup_for_export'', Status = ''setup_for_export'',
               StartSeq = 0, Payload = ''{}'', TimeStamp = 1\<rparr>,
              \<lparr>ID = 2, MigrationType = ''export'', FromNode = ''node1'', ToNode = ''node2'',
               FileLocation = ''export_node1_to_node2_1_5.json'', Status = ''exported'',
               StartSeq = 1, Payload = ''{}'', TimeStamp = 2\<rparr>,
              \<lparr>ID = 3, MigrationType = ''export'', FromNode = ''node1'', ToNode = ''node2'',
               FileLocation = ''export_node1_to_node2_42_17.json'', Status = ''exported'',
               StartSeq = 100, Payload = ''{}'', TimeStamp = 5\<rparr>], next_id = 4\<rparr>
     DriverOK 9
     \<lparr>ID = 0, MigrationType = ''import'', FromNode = ''node3'', ToNode = ''node4'',
      FileLocation = ''export_node1_to_node2_42_17.json'', Status = ''notified'',
      StartSeq = 200, Payload = ''[1]'', TimeStamp = 8\<rparr> =
     (Inr 3,
      \<lparr>rows = [\<lparr>ID = 1, MigrationType = ''export'', FromNode = ''node1'', ToNode = ''All'',
                FileLocation = ''setup_for_export'', Status = ''setup_for_export'',
                StartSeq = 0, Payload = ''{}'', TimeStamp = 1\<rparr>,
               \<lparr>ID = 2, MigrationType = ''export'', FromNode = ''node1'', ToNode = ''node2'',
                FileLocation = ''export_node1_to_node2_1_5.json'', Status = ''exported'',
                StartSeq = 1, Payload = ''{}'', TimeStamp = 2\<rparr>,
               \<lparr>ID = 3, MigrationType = ''export'', FromNode = ''node1'', ToNode = ''node2'',
                FileLocation = ''export_node1_to_node2_42_17.json'', Status = ''notified'',
                StartSeq = 100, Payload = ''{}'', TimeStamp = 5\<rparr>], next_id = 5\<rparr>) \<and>
   (\<exists>i jd1 jd2 old.
      Checkpoint
        \<lparr>rows = [\<lparr>ID = 1, MigrationType = ''export'', FromNode = ''node1'', ToNode = ''All'',
                  FileLocation = ''setup_for_export'', Status = ''setup_for_export'',
                  StartSeq = 0, Payload = ''{}'', TimeStamp = 1\<rparr>,
                 \<lparr>ID = 2, MigrationType = ''export'', FromNode = ''node1'', ToNode = ''node2'',
                  FileLocation = ''export_node1_to_node2_1_5.json'', Status = ''exported'',
                  StartSeq = 1, Payload = ''{}'', TimeStamp = 2\<rparr>], next_id = 3\<rparr>
        DriverOK 6
        \<lparr>ID = 0, MigrationType = ''export'', FromNode = ''node1'', ToNode = ''node2'',
         FileLocation = ''export_node1_to_node2_1_5.json'', Status = ''notified'',
         StartSeq = 1, Payload = ''{}'', TimeStamp = 6\<rparr> = (Inr i, jd1) \<and>
      Checkpoint jd1 DriverOK 7
        \<lparr>ID = 0, MigrationType = ''export'', FromNode = ''node1'', ToNode = ''node2'',
         FileLocation = ''export_node1_to_node2_1_5.json'', Status = ''completed'',
         StartSeq = 1, Payload = ''{}'', TimeStamp = 7\<rparr> = (Inr i, jd2) \<and>
      filter (\<lambda>r. FileLocation r = ''export_node1_to_node2_1_5.json'') (rows jd2) =
        [old\<lparr>Status := ''completed''\<rparr>] \<and>
      ID old = i \<and> schema_ok jd2)"
proof -
  let ?r1 = "\<lparr>ID = 1, MigrationType = ''export'', FromNode = ''node1'', ToNode = ''All'',
       FileLocation = ''setup_for_export'', Status = ''setup_for_export'',
       StartSeq = 0, Payload = ''{}'', TimeStamp = 1\<rparr>"
  let ?r2 = "\<lparr>ID = 2, MigrationType = ''export'', FromNode = ''node1'', ToNode = ''node2'',
       FileLocation = ''export_node1_to_node2_1_5.json'', Status = ''exported'',
       StartSeq = 1, Payload = ''{}'', TimeStamp = 2\<rparr>"
  let ?jd = "\<lparr>rows = [?r1, ?r2], next_id = 3\<rparr>"
  let ?e1 = "\<lparr>ID = 0, MigrationType = ''export'', FromNode = ''node1'', ToNode = ''node2'',
       FileLocation = ''export_node1_to_node2_42_17.json'', Status = ''exported'',
       StartSeq = 100, Payload = ''{}'', TimeStamp = 4\<rparr>"
  let ?e2 = "\<lparr>ID = 0, MigrationType = ''import'', FromNode = ''node3'', ToNode = ''node4'',
       FileLocation = ''export_node1_to_node2_42_17.json'', Status = ''notified'',
       StartSeq = 200, Payload = ''[1]'', TimeStamp = 8\<rparr>"
  let ?r3 = "\<lparr>ID = 3, MigrationType = ''export'', FromNode = ''node1'', ToNode = ''node2'',
       FileLocation = ''export_node1_to_node2_42_17.json'', Status = ''exported'',
       StartSeq = 100, Payload = ''{}'', TimeStamp = 5\<rparr>"
  let ?jd1 = "\<lparr>rows = [?r1, ?r2, ?r3], next_id = 4\<rparr>"
  let ?jd2 = "\<lparr>rows = [?r1, ?r2, ?r3\<lparr>Status := ''notified''\<rparr>], next_id = 5\<rparr>"
  let ?f1 = "\<lparr>ID = 0, MigrationType = ''export'', FromNode = ''node1'', ToNode = ''node2'',
       FileLocation = ''export_node1_to_node2_1_5.json'', Status = ''notified'',
       StartSeq = 1, Payload = ''{}'', TimeStamp = 6\<rparr>"
  let ?f2 = "\<lparr>ID = 0, MigrationType = ''export'', FromNode = ''node1'', ToNode = ''node2'',
       FileLocation = ''export_node1_to_node2_1_5.json'', Status = ''completed'',
       StartSeq = 1, Payload = ''{}'', TimeStamp = 7\<rparr>"
  have s: "schema_ok ?jd" by (simp add: schema_ok_def)
  have a: "Checkpoint ?jd DriverOK 5 ?e1 = (Inr 3, ?jd1)"
    by (simp add: Checkpoint_def CheckpointInTxn_def assert_def assertError_def ExportOp_def
        checkpoint_statement_def sql_insert_on_conflict_def word_sless_alt)
  have b: "Checkpoint ?jd1 DriverOK 9 ?e2 = (Inr 3, ?jd2)"
    by (simp add: Checkpoint_def CheckpointInTxn_def assert_def assertError_def ExportOp_def
        ImportOp_def checkpoint_statement_def sql_insert_on_conflict_def word_sless_alt)
  have c: "\<exists>i jd1 jd2 old.
      Checkpoint ?jd DriverOK 6 ?f1 = (Inr i, jd1) \<and>
      Checkpoint jd1 DriverOK 7 ?f2 = (Inr i, jd2) \<and>
      filter (\<lambda>r. FileLocation r = ''export_node1_to_node2_1_5.json'') (rows jd2) =
        [old\<lparr>Status := ''completed''\<rparr>] \<and>
      ID old = i \<and> schema_ok jd2"
    using Checkpoint_same_FileLocation_twice [OF s, of ?f1 ?f2 6 7 DriverOK DriverOK]
    by (simp add: ExportOp_def) blast
  from s a b c show ?thesis by simp
qed

subsection \<open>Setup resolution\<close>








lemma NewSetupCheckpointEvent_fields:
  assumes "NewSetupCheckpointEvent mt node now = Inr e"
  shows "ID e = 0 \<and> MigrationType e = mt \<and> FileLocation e = setupStatus mt \<and>
         Status e = setupStatus mt \<and>
         (mt = ExportOp \<or> mt = ImportOp \<or> mt = AcceptNewEventsOp)"
  using assms
  by (auto simp: NewSetupCheckpointEvent_def NewMigrationEvent_def setupStatus_def
      split: if_splits)




lemmas setup_eval =
  findOrCreateDsFromSetupCheckpoint_def GetSetupCheckpoint_def GetCheckpoints_def
  sql_select_checkpoints_def setupStatus_def NewSetupCheckpointEvent_def NewMigrationEvent_def
  Checkpoint_def CheckpointInTxn_def checkpoint_statement_def sql_insert_on_conflict_def
  sql_update_def assert_def assertError_def example_collaborators_def
  ExportOp_def ImportOp_def AcceptNewEventsOp_def SetupForExport_def SetupForImport_def
  SetupToAcceptNewEvents_def word_sless_alt Let_def



subsection \<open>Setup rows under their own file location\<close>

lemma sql_insert_on_conflict_keyed:
  assumes k: "setup_keyed jd" and fs: "FileLocation ev = Status ev"
    and run: "sql_insert_on_conflict jd ev now = (res, jd1)"
  shows "setup_keyed jd1"
proof (cases res)
  case (Inl e)
  with run have "rows jd1 = rows jd" by (simp add: sql_insert_on_conflict_rows_Inl)
  with k show ?thesis by (simp add: setup_keyed_def)
next
  case (Inr i)
  with run have "sql_insert_on_conflict jd ev now = (Inr i, jd1)" by simp
  from sql_insert_on_conflict_Inr [OF this] show ?thesis
  proof (elim disjE exE conjE)
    fix old
    assume "rows jd1 = map (\<lambda>r. if FileLocation r = FileLocation ev
                                  then r\<lparr>Status := Status ev\<rparr> else r) (rows jd)"
    with k fs show ?thesis
      by (auto simp: setup_keyed_def key_columns_status list_all_iff)
  next
    assume none: "find (\<lambda>r. FileLocation r = FileLocation ev) (rows jd) = None"
      and r: "rows jd1 = rows jd @
              [\<lparr>ID = i, MigrationType = MigrationType ev, FromNode = FromNode ev,
                ToNode = ToNode ev, FileLocation = FileLocation ev, Status = Status ev,
                StartSeq = StartSeq ev, Payload = Payload ev, TimeStamp = now\<rparr>]"
    from none have "FileLocation ev \<notin> FileLocation ` set (rows jd)"
      by (auto simp: find_None_iff)
    with k fs r show ?thesis by (simp add: setup_keyed_def)
  qed
qed

lemma Checkpoint_insert_keyed:
  assumes k: "setup_keyed jd" and fs: "FileLocation ev = Status ev" and id: "ID ev = 0"
  shows "setup_keyed (snd (Checkpoint jd drv now ev))"
proof -
  have st: "setup_keyed (snd (checkpoint_statement jd drv now ev))"
  proof (cases "drv = QueryFails")
    case True
    with k show ?thesis by (simp add: checkpoint_statement_def)
  next
    case False
    obtain res jd1 where run: "sql_insert_on_conflict jd ev now = (res, jd1)"
      by (cases "sql_insert_on_conflict jd ev now")
    from sql_insert_on_conflict_keyed [OF k fs run] False id run show ?thesis
      by (simp add: checkpoint_statement_def word_sless_alt)
  qed
  obtain res jd1 where cs: "checkpoint_statement jd drv now ev = (res, jd1)"
    by (cases "checkpoint_statement jd drv now ev")
  with st have "setup_keyed jd1" by simp
  with k cs show ?thesis
    by (auto simp: Checkpoint_def CheckpointInTxn_def split: sum.splits if_splits)
qed

lemma checkpoint_setup_event_keyed:
  assumes "setup_keyed jd"
  shows "setup_keyed (checkpoint_setup_event jd call)"
proof -
  obtain mt node nowNew payload drv nowPut
    where call: "call = (mt, node, nowNew, payload, drv, nowPut)"
    by (cases call) auto
  show ?thesis
  proof (cases "NewSetupCheckpointEvent mt node nowNew")
    case (Inl f)
    with assms call show ?thesis by simp
  next
    case (Inr me)
    from NewSetupCheckpointEvent_fields [OF Inr]
    have "FileLocation (me\<lparr>Payload := payload\<rparr>) = Status (me\<lparr>Payload := payload\<rparr>)"
      and "ID (me\<lparr>Payload := payload\<rparr>) = 0"
      by simp_all
    from Checkpoint_insert_keyed [OF assms this] Inr call show ?thesis by simp
  qed
qed

lemma checkpoint_setup_events_keyed:
  "setup_keyed jd \<Longrightarrow> setup_keyed (checkpoint_setup_events jd calls)"
  unfolding checkpoint_setup_events_def
  by (induction calls arbitrary: jd) (simp_all add: checkpoint_setup_event_keyed)

lemma distinct_constant_length:
  assumes "distinct ys" and "\<forall>y\<in>set ys. y = c"
  shows "length ys \<le> 1"
proof -
  from assms(2) have "set ys \<subseteq> {c}" by auto
  then have "card (set ys) \<le> card {c}" by (intro card_mono) simp_all
  with assms(1) show ?thesis by (simp add: distinct_card)
qed

lemma setup_keyed_at_most_one:
  assumes k: "setup_keyed jd"
    and t: "t = ExportOp \<or> t = ImportOp \<or> t = AcceptNewEventsOp"
  shows "length (setup_rows jd t) \<le> 1"
proof -
  let ?ys = "map FileLocation (setup_rows jd t)"
  from k have "distinct (map FileLocation (rows jd))" by (simp add: setup_keyed_def)
  then have d: "distinct ?ys"
    unfolding setup_rows_def by (rule distinct_map_filter)
  have "\<forall>y\<in>set ?ys. y = setupStatus t"
    using k t by (auto simp: setup_keyed_def setup_rows_def list_all_iff)
  with d have "length ?ys \<le> 1" by (rule distinct_constant_length)
  then show ?thesis by simp
qed

text \<open>
  C10, amended. For each of the three migration types the constructed setup event has the
  setup status of the type as its file location and as its status. On a table in which file
  locations are unique and every setup row is stored under its setup status, as on the
  empty table that \<open>SetupCheckpointTable\<close> creates, any sequence of \<open>Checkpoint\<close> calls on
  constructed setup events, of one type or of several, whether the calls return or abort,
  leaves a table of the same kind, and such a table holds at most one setup row for each
  of the three types.
\<close>

theorem setup_event_checkpoints_one_setup_row:
  "(t = ExportOp \<or> t = ImportOp \<or> t = AcceptNewEventsOp \<longrightarrow>
      (\<exists>e. NewSetupCheckpointEvent t node now = Inr e \<and>
           FileLocation e = setupStatus t \<and> Status e = setupStatus t) \<and>
      (setup_keyed jd \<longrightarrow> length (setup_rows (checkpoint_setup_events jd calls) t) \<le> 1)) \<and>
   (setup_keyed jd \<longrightarrow> setup_keyed (checkpoint_setup_events jd calls)) \<and>
   setup_keyed \<lparr>rows = [], next_id = 1\<rparr> \<and>
   SetupCheckpointTable None DriverOK = Inr \<lparr>rows = [], next_id = 1\<rparr>"
proof -
  have a: "\<exists>e. NewSetupCheckpointEvent t node now = Inr e \<and>
           FileLocation e = setupStatus t \<and> Status e = setupStatus t"
    if "t = ExportOp \<or> t = ImportOp \<or> t = AcceptNewEventsOp"
    using that
    by (auto simp: NewSetupCheckpointEvent_def NewMigrationEvent_def setupStatus_def)
  have b: "setup_keyed (checkpoint_setup_events jd calls)" if "setup_keyed jd"
    using that by (rule checkpoint_setup_events_keyed)
  have c: "length (setup_rows (checkpoint_setup_events jd calls) t) \<le> 1"
    if "setup_keyed jd" and "t = ExportOp \<or> t = ImportOp \<or> t = AcceptNewEventsOp"
    using b [OF that(1)] that(2) by (rule setup_keyed_at_most_one)
  have d: "setup_keyed \<lparr>rows = [], next_id = 1\<rparr>"
    by (simp add: setup_keyed_def)
  have e: "SetupCheckpointTable None DriverOK = Inr \<lparr>rows = [], next_id = 1\<rparr>"
    by (simp add: SetupCheckpointTable_def assertError_def)
  show ?thesis using a b c d e by blast
qed

theorem setup_event_checkpoints_one_setup_row_witness:
  "setup_keyed \<lparr>rows = [], next_id = 1\<rparr> \<and>
   checkpoint_setup_events \<lparr>rows = [], next_id = 1\<rparr>
     [(''export'', ''node1'', 1, ''jobs_1'', DriverOK, 2),
      (''export'', ''node2'', 3, ''jobs_2'', DriverOK, 4),
      (''import'', ''node1'', 5, ''jobs_0'', QueryFails, 6),
      (''import'', ''node1'', 7, ''jobs_0'', DriverOK, 8)] =
     \<lparr>rows = [\<lparr>ID = 1, MigrationType = ''export'', FromNode = ''node1'', ToNode = ''All'',
               FileLocation = ''setup_for_export'', Status = ''setup_for_export'',
               StartSeq = 0, Payload = ''jobs_1'', TimeStamp = 2\<rparr>,
              \<lparr>ID = 3, MigrationType = ''import'', FromNode = ''All'', ToNode = ''node1'',
               FileLocation = ''setup_for_import'', Status = ''setup_for_import'',
               StartSeq = 0, Payload = ''jobs_0'', TimeStamp = 8\<rparr>], next_id = 4\<rparr> \<and>
   length (setup_rows
     \<lparr>rows = [\<lparr>ID = 1, MigrationType = ''export'', FromNode = ''node1'', ToNode = ''All'',
               FileLocation = ''setup_for_export'', Status = ''setup_for_export'',
               StartSeq = 0, Payload = ''jobs_1'', TimeStamp = 2\<rparr>,
              \<lparr>ID = 3, MigrationType = ''import'', FromNode = ''All'', ToNode = ''node1'',
               FileLocation = ''setup_for_import'', Status = ''setup_for_import'',
               StartSeq = 0, Payload = ''jobs_0'', TimeStamp = 8\<rparr>], next_id = 4\<rparr>
     ''export'') \<le> 1"
proof -
  let ?calls = "[(''export'', ''node1'', 1, ''jobs_1'', DriverOK, 2),
      (''export'', ''node2'', 3, ''jobs_2'', DriverOK, 4),
      (''import'', ''node1'', 5, ''jobs_0'', QueryFails, 6),
      (''import'', ''node1'', 7, ''jobs_0'', DriverOK, 8)]"
  have k: "setup_keyed \<lparr>rows = [], next_id = 1\<rparr>"
    by (simp add: setup_keyed_def)
  have r: "checkpoint_setup_events \<lparr>rows = [], next_id = 1\<rparr> ?calls =
     \<lparr>rows = [\<lparr>ID = 1, MigrationType = ''export'', FromNode = ''node1'', ToNode = ''All'',
               FileLocation = ''setup_for_export'', Status = ''setup_for_export'',
               StartSeq = 0, Payload = ''jobs_1'', TimeStamp = 2\<rparr>,
              \<lparr>ID = 3, MigrationType = ''import'', FromNode = ''All'', ToNode = ''node1'',
               FileLocation = ''setup_for_import'', Status = ''setup_for_import'',
               StartSeq = 0, Payload = ''jobs_0'', TimeStamp = 8\<rparr>], next_id = 4\<rparr>"
    by (simp add: checkpoint_setup_events_def setup_eval)
  have t: "''export'' = ExportOp" by (simp add: ExportOp_def)
  from setup_event_checkpoints_one_setup_row
    [of "''export''" "''node1''" 1 "\<lparr>rows = [], next_id = 1\<rparr>" ?calls] k t
  have "length (setup_rows (checkpoint_setup_events \<lparr>rows = [], next_id = 1\<rparr> ?calls)
          ''export'') \<le> 1"
    by blast
  with k r show ?thesis by simp
qed

text \<open>
  C10, as stated, fails on a table that holds one setup row under another file location,
  written by \<open>Checkpoint\<close> on an event that the setup constructor did not build. The table
  has at most one setup row for \<open>export\<close>; the checkpoint of the constructed setup event meets
  no row of its file location and is inserted as a second one, after which
  \<open>GetSetupCheckpoint\<close> aborts.
\<close>

theorem setup_event_checkpoint_second_setup_row_counterexample:
  "Checkpoint \<lparr>rows = [], next_id = 1\<rparr> DriverOK 3
      (NewMigrationEvent ''export'' ''node2'' ''All'' ''inserted_directly''
         ''setup_for_export'' 0 2) =
     (Inr 1,
      \<lparr>rows = [\<lparr>ID = 1, MigrationType = ''export'', FromNode = ''node2'', ToNode = ''All'',
                FileLocation = ''inserted_directly'', Status = ''setup_for_export'',
                StartSeq = 0, Payload = ''{}'', TimeStamp = 3\<rparr>], next_id = 2\<rparr>) \<and>
   length (setup_rows
      \<lparr>rows = [\<lparr>ID = 1, MigrationType = ''export'', FromNode = ''node2'', ToNode = ''All'',
                FileLocation = ''inserted_directly'', Status = ''setup_for_export'',
                StartSeq = 0, Payload = ''{}'', TimeStamp = 3\<rparr>], next_id = 2\<rparr>
      ''export'') = 1 \<and>
   NewSetupCheckpointEvent ''export'' ''node1'' 8 =
     Inr \<lparr>ID = 0, MigrationType = ''export'', FromNode = ''node1'', ToNode = ''All'',
          FileLocation = ''setup_for_export'', Status = ''setup_for_export'', StartSeq = 0,
          Payload = ''{}'', TimeStamp = 8\<rparr> \<and>
   Checkpoint
      \<lparr>rows = [\<lparr>ID = 1, MigrationType = ''export'', FromNode = ''node2'', ToNode = ''All'',
                FileLocation = ''inserted_directly'', Status = ''setup_for_export'',
                StartSeq = 0, Payload = ''{}'', TimeStamp = 3\<rparr>], next_id = 2\<rparr>
      DriverOK 9
      \<lparr>ID = 0, MigrationType = ''export'', FromNode = ''node1'', ToNode = ''All'',
       FileLocation = ''setup_for_export'', Status = ''setup_for_export'', StartSeq = 0,
       Payload = ''{}'', TimeStamp = 8\<rparr> =
     (Inr 2,
      \<lparr>rows = [\<lparr>ID = 1, MigrationType = ''export'', FromNode = ''node2'', ToNode = ''All'',
                FileLocation = ''inserted_directly'', Status = ''setup_for_export'',
                StartSeq = 0, Payload = ''{}'', TimeStamp = 3\<rparr>,
               \<lparr>ID = 2, MigrationType = ''export'', FromNode = ''node1'', ToNode = ''All'',
                FileLocation = ''setup_for_export'', Status = ''setup_for_export'',
                StartSeq = 0, Payload = ''{}'', TimeStamp = 9\<rparr>], next_id = 3\<rparr>) \<and>
   length (setup_rows
      \<lparr>rows = [\<lparr>ID = 1, MigrationType = ''export'', FromNode = ''node2'', ToNode = ''All'',
                FileLocation = ''inserted_directly'', Status = ''setup_for_export'',
                StartSeq = 0, Payload = ''{}'', TimeStamp = 3\<rparr>,
               \<lparr>ID = 2, MigrationType = ''export'', FromNode = ''node1'', ToNode = ''All'',
                FileLocation = ''setup_for_export'', Status = ''setup_for_export'',
                StartSeq = 0, Payload = ''{}'', TimeStamp = 9\<rparr>], next_id = 3\<rparr>
      ''export'') = 2 \<and>
   GetSetupCheckpoint
      \<lparr>rows = [\<lparr>ID = 1, MigrationType = ''export'', FromNode = ''node2'', ToNode = ''All'',
                FileLocation = ''inserted_directly'', Status = ''setup_for_export'',
                StartSeq = 0, Payload = ''{}'', TimeStamp = 3\<rparr>,
               \<lparr>ID = 2, MigrationType = ''export'', FromNode = ''node1'', ToNode = ''All'',
                FileLocation = ''setup_for_export'', Status = ''setup_for_export'',
                StartSeq = 0, Payload = ''{}'', TimeStamp = 9\<rparr>], next_id = 3\<rparr>
      DriverOK ''export'' =
     Inl (Panic ''More than 1 setup event found. This should not happen'')"
  by (simp add: setup_eval setup_rows_def)

end
